theory Spec2Isabelle
  imports Complex_Main
begin

section \<open>JavaScript values of print-progress.js\<close>

text \<open>
  The overlay reads JSON objects sent by the printer. A field of such an object is
  absent (\<open>undefined\<close>), \<open>null\<close>, or a number. Numbers are exact rationals here: the
  rounding of IEEE doubles is not part of the model. Where a quotient is an integer or a
  half in exact arithmetic and the double next to it is not, \<open>Math.floor\<close> and
  \<open>Math.round\<close> of the code can differ by one from the value here (Z = 0.6 over 0.2 is
  3 here and 2 in doubles), and a decimal text is read as its exact value where
  \<open>Number\<close> reads the nearest double. The properties below hold for the formulas as
  written; the concrete inputs are chosen so that doubles give the same values. Where
  JavaScript arithmetic yields \<open>NaN\<close>, the number-valued result is \<open>None\<close>.
\<close>

datatype jsval = Undefined | Null | Num rat

type_synonym jsobj = "string \<Rightarrow> jsval"

text \<open>The object literal \<open>{}\<close>: every property reads \<open>undefined\<close>.\<close>

definition emptyObj :: jsobj where
  "emptyObj = (\<lambda>k. Undefined)"

text \<open>\<open>a ?? b\<close>\<close>

definition nullish :: "jsval \<Rightarrow> jsval \<Rightarrow> jsval" where
  "nullish a b = (case a of Undefined \<Rightarrow> b | Null \<Rightarrow> b | Num x \<Rightarrow> Num x)"

text \<open>Truthiness of a value: \<open>undefined\<close>, \<open>null\<close> and \<open>0\<close> are falsy.\<close>

definition truthy :: "jsval \<Rightarrow> bool" where
  "truthy v = (case v of Undefined \<Rightarrow> False | Null \<Rightarrow> False | Num x \<Rightarrow> x \<noteq> 0)"

text \<open>\<open>Number(v)\<close>: \<open>undefined\<close> gives \<open>NaN\<close>, \<open>null\<close> gives 0.\<close>

definition toNumber :: "jsval \<Rightarrow> rat option" where
  "toNumber v = (case v of Undefined \<Rightarrow> None | Null \<Rightarrow> Some 0 | Num x \<Rightarrow> Some x)"

text \<open>\<open>Math.round\<close> rounds halves towards plus infinity; \<open>Math.floor\<close>.\<close>

definition mathRound :: "rat \<Rightarrow> rat" where
  "mathRound x = of_int \<lfloor>x + 1 / 2\<rfloor>"

definition mathFloor :: "rat \<Rightarrow> rat" where
  "mathFloor x = of_int \<lfloor>x\<rfloor>"

text \<open>
  \<open>function asNumber(value) { const num = Number(value);
     return Number.isFinite(num) ? num : null; }\<close>
\<close>

definition asNumber :: "jsval \<Rightarrow> rat option" where
  "asNumber v = toNumber v"

text \<open>
  \<open>function firstNonNull(...values)\<close>: the first value that is neither \<open>null\<close> nor
  \<open>undefined\<close>, else \<open>null\<close>.
\<close>

fun firstNonNull :: "'a option list \<Rightarrow> 'a option" where
  "firstNonNull [] = None"
| "firstNonNull (None # vs) = firstNonNull vs"
| "firstNonNull (Some v # vs) = Some v"

section \<open>Time\<close>

text \<open>
  \<open>function computeRemainingFromProgress(progress, printDuration) {
      if (progress > 0 && progress < 1) {
          const totalTime = printDuration / progress;
          return totalTime - printDuration; }
      return null; }\<close>
\<close>

definition computeRemainingFromProgress :: "rat \<Rightarrow> rat \<Rightarrow> rat option" where
  "computeRemainingFromProgress progress printDuration =
     (if 0 < progress \<and> progress < 1
      then (let totalTime = printDuration / progress in Some (totalTime - printDuration))
      else None)"

text \<open>
  The parts of the status object that the layer and time code reads:
  \<open>print_stats\<close> (\<open>state\<close>, \<open>filename\<close>, \<open>info\<close>, the two duration counters),
  \<open>toolhead.position\<close>, and the \<open>progress\<close> fields of \<open>display_status\<close> and
  \<open>virtual_sdcard\<close>. An object that may be missing is an option.
\<close>

record print_stats =
  state :: string
  filename :: string
  info :: "jsobj option"
  print_duration :: jsval
  total_duration :: jsval

record toolhead =
  position :: "jsval list option"

text \<open>\<open>toolhead?.position?.[2]\<close>\<close>

definition toolheadZ :: "toolhead option \<Rightarrow> jsval" where
  "toolheadZ th =
     (case th of None \<Rightarrow> Undefined
      | Some t \<Rightarrow>
          (case position t of None \<Rightarrow> Undefined
           | Some p \<Rightarrow> (if 2 < length p then p ! 2 else Undefined)))"

text \<open>\<open>obj?.key\<close>\<close>

definition optField :: "jsobj option \<Rightarrow> string \<Rightarrow> jsval" where
  "optField obj k = (case obj of None \<Rightarrow> Undefined | Some ob \<Rightarrow> ob k)"

text \<open>
  \<open>function getSlicerTotalSeconds(metadata, slicerInfo)\<close>: the first candidate whose
  \<open>asNumber\<close> is truthy and positive.
\<close>

fun firstPositive :: "jsval list \<Rightarrow> rat option" where
  "firstPositive [] = None"
| "firstPositive (v # vs) =
     (case asNumber v of
        Some n \<Rightarrow> (if n \<noteq> 0 \<and> 0 < n then Some n else firstPositive vs)
      | None \<Rightarrow> firstPositive vs)"

definition getSlicerTotalSeconds :: "jsobj option \<Rightarrow> jsobj option \<Rightarrow> rat option" where
  "getSlicerTotalSeconds metadata slicerInfo =
     firstPositive
       [optField metadata ''estimated_time'',
        optField metadata ''slicer_estimated_time'',
        optField metadata ''slicer_time'',
        optField metadata ''estimated_print_time'',
        optField metadata ''slicer_estimated_duration'',
        optField metadata ''print_time'',
        optField slicerInfo ''estimated_time'',
        optField slicerInfo ''slicer_time'',
        optField slicerInfo ''slicer_estimated_time'',
        optField slicerInfo ''estimated_print_time'',
        optField slicerInfo ''slicer_estimated_duration'']"

text \<open>
  \<open>function getElapsedTime(printStats) {
      const totalDuration = asNumber(printStats?.total_duration);
      const printDuration = asNumber(printStats?.print_duration);
      return totalDuration ?? printDuration ?? null; }\<close>
\<close>

definition getElapsedTime :: "print_stats \<Rightarrow> rat option" where
  "getElapsedTime printStats =
     (let totalDuration = asNumber (total_duration printStats);
          printDuration = asNumber (print_duration printStats)
      in firstNonNull [totalDuration, printDuration])"

text \<open>
  The three values that one poll of \<open>fetchPrintStatus\<close> hands to \<open>setTimeValue\<close> for
  the elements \<open>timeEstimate\<close>, \<open>timeSlicer\<close> and \<open>timeTotal\<close>, in the branches
  \<open>state === 'printing'\<close>, \<open>state === 'paused'\<close> and \<open>else\<close>.
\<close>

record time_values =
  timeEstimate :: "rat option"
  timeSlicer :: "rat option"
  timeTotal :: "rat option"

definition clampProgress :: "jsval \<Rightarrow> rat" where
  \<comment> \<open>\<open>Math.max(0, Math.min(1, Number(rawProgress) || 0))\<close>\<close>
  "clampProgress rawProgress =
     max 0 (min 1 (case toNumber rawProgress of None \<Rightarrow> 0 | Some x \<Rightarrow> x))"

definition pollTimes ::
  "print_stats \<Rightarrow> jsobj option \<Rightarrow> jsobj option \<Rightarrow> jsobj option \<Rightarrow> time_values" where
  "pollTimes printStats displayStatus virtualSdcard metadata =
     (if state printStats = ''printing'' then
        (let rawProgress = nullish (optField virtualSdcard ''progress'')
                             (nullish (optField displayStatus ''progress'') (Num 0));
             progress = clampProgress rawProgress;
             printDuration = (case print_duration printStats of
                                Num d \<Rightarrow> d | Undefined \<Rightarrow> 0 | Null \<Rightarrow> 0);
             estimateRemaining = computeRemainingFromProgress progress printDuration;
             slicerTotal = getSlicerTotalSeconds metadata (info printStats);
             slicerRemaining = (case slicerTotal of
                                  Some t \<Rightarrow> Some (max 0 (t - printDuration))
                                | None \<Rightarrow> None);
             elapsedTime = getElapsedTime printStats
         in \<lparr>timeEstimate = estimateRemaining, timeSlicer = slicerRemaining,
             timeTotal = elapsedTime\<rparr>)
      else if state printStats = ''paused'' then
        (let slicerTotal = getSlicerTotalSeconds metadata (info printStats)
         in \<lparr>timeEstimate = None, timeSlicer = slicerTotal,
             timeTotal = getElapsedTime printStats\<rparr>)
      else
        (let slicerTotal = getSlicerTotalSeconds metadata (info printStats)
         in \<lparr>timeEstimate = None, timeSlicer = slicerTotal, timeTotal = None\<rparr>))"

section \<open>Layers\<close>

record layers =
  current :: "rat option"
  total :: "rat option"

text \<open>\<open>x || null\<close> for a number or null \<open>x\<close>: 0 becomes null.\<close>

definition orNull :: "rat option \<Rightarrow> rat option" where
  "orNull x = (case x of None \<Rightarrow> None | Some n \<Rightarrow> (if n = 0 then None else Some n))"

text \<open>\<open>a || h\<close> where \<open>h\<close> is a number.\<close>

definition orNum :: "jsval \<Rightarrow> rat \<Rightarrow> rat" where
  "orNum a h = (case a of Num x \<Rightarrow> (if x \<noteq> 0 then x else h) | Undefined \<Rightarrow> h | Null \<Rightarrow> h)"

text \<open>\<open>metadata.layer_count ?? metadata.total_layer ?? metadata.total_layers\<close>\<close>

definition metadataLayerCount :: "jsobj \<Rightarrow> jsval" where
  "metadataLayerCount md =
     nullish (md ''layer_count'') (nullish (md ''total_layer'') (md ''total_layers''))"

text \<open>
  \<open>function computeLayerFromMetadata(toolhead, metadata)\<close>. The arithmetic runs only
  where \<open>layerHeight\<close> (and \<open>objectHeight\<close>, \<open>currentZ\<close>) passed the guards of the source,
  so where they are numbers and \<open>layerHeight\<close> is not 0.
\<close>

definition computeLayerFromMetadata :: "toolhead option \<Rightarrow> jsobj option \<Rightarrow> layers" where
  "computeLayerFromMetadata th metadata =
     (case metadata of
        None \<Rightarrow> \<lparr>current = None, total = None\<rparr>
      | Some md \<Rightarrow>
          (let layerHeight = md ''layer_height'';
               objectHeight = md ''object_height'';
               layerCount = asNumber (metadataLayerCount md);
               currentZ = toolheadZ th;
               total =
                 (case orNull layerCount of
                    Some t \<Rightarrow> Some t
                  | None \<Rightarrow>
                      (case (layerHeight, objectHeight) of
                         (Num h, Num oh) \<Rightarrow>
                           (if h \<noteq> 0 \<and> oh \<noteq> 0
                            then Some (max 1 (mathRound
                                   ((oh - orNum (md ''first_layer_height'') h) / h + 1)))
                            else None)
                       | _ \<Rightarrow> None));
               current =
                 (case (layerHeight, currentZ) of
                    (Num h, Num z) \<Rightarrow>
                      (if h \<noteq> 0
                       then (let calc = mathFloor
                                     ((z - orNum (md ''first_layer_height'') h) / h + 1);
                                 c = max 1 calc
                             in Some (case orNull total of Some t \<Rightarrow> min t c | None \<Rightarrow> c))
                       else None)
                  | _ \<Rightarrow> None)
           in \<lparr>current = current, total = total\<rparr>))"

text \<open>\<open>function computeLayerFromProgress(displayStatus, metadata)\<close>\<close>

definition computeLayerFromProgress :: "jsobj option \<Rightarrow> jsobj option \<Rightarrow> layers" where
  "computeLayerFromProgress displayStatus metadata =
     (case metadata of
        None \<Rightarrow> \<lparr>current = None, total = None\<rparr>
      | Some md \<Rightarrow>
          (let total = asNumber (metadataLayerCount md);
               progress = (case optField displayStatus ''progress'' of
                             Num p \<Rightarrow> Some p | Undefined \<Rightarrow> None | Null \<Rightarrow> None)
           in (case (orNull total, progress) of
                 (Some t, Some p) \<Rightarrow>
                   (if p \<le> 0 then \<lparr>current = None, total = Some t\<rparr>
                    else \<lparr>current = Some (max 1 (min t (mathRound (p * t)))),
                          total = Some t\<rparr>)
               | (t, _) \<Rightarrow> \<lparr>current = None, total = t\<rparr>)))"

text \<open>
  The four candidates for the current layer and the three for the total, as
  \<open>getLayerInfo\<close> computes them before it selects.
\<close>

definition slicerInfoOf :: "print_stats \<Rightarrow> jsobj" where
  \<comment> \<open>\<open>printStats.info || {}\<close>\<close>
  "slicerInfoOf printStats = (case info printStats of None \<Rightarrow> emptyObj | Some i \<Rightarrow> i)"

definition slicerCurrent :: "print_stats \<Rightarrow> rat option" where
  "slicerCurrent printStats =
     (let slicerInfo = slicerInfoOf printStats
      in asNumber (nullish (slicerInfo ''current_layer'')
                    (nullish (slicerInfo ''currentLayer'')
                      (nullish (slicerInfo ''layer_current'') (slicerInfo ''layer'')))))"

definition slicerTotal :: "print_stats \<Rightarrow> rat option" where
  "slicerTotal printStats =
     (let slicerInfo = slicerInfoOf printStats
      in asNumber (nullish (slicerInfo ''total_layer'')
                    (nullish (slicerInfo ''totalLayer'')
                      (nullish (slicerInfo ''layer_count'')
                        (nullish (slicerInfo ''layerTotal'') (slicerInfo ''totalLayers''))))))"

definition fallbackCurrent :: "toolhead option \<Rightarrow> layers \<Rightarrow> rat option" where
  "fallbackCurrent th metadataLayer =
     (case toolheadZ th of
        Num z \<Rightarrow>
          (if 0 < z \<and> orNull (current metadataLayer) = None
           then Some (max 1 (mathFloor (z / (2 / 10))))
           else None)
      | Undefined \<Rightarrow> None
      | Null \<Rightarrow> None)"

text \<open>
  \<open>function getLayerInfo(printStats, displayStatus, toolhead)\<close>; the global
  \<open>metadataCache.data\<close> that it reads is the last argument. The result's \<open>current\<close> and
  \<open>total\<close> are the source's \<open>currentLayer\<close> and \<open>totalLayer\<close>.
\<close>

definition getLayerInfo ::
  "print_stats \<Rightarrow> jsobj option \<Rightarrow> toolhead option \<Rightarrow> jsobj option \<Rightarrow> layers" where
  "getLayerInfo printStats displayStatus th metadata =
     (let metadataLayer = computeLayerFromMetadata th metadata;
          progressLayer = computeLayerFromProgress displayStatus metadata
      in \<lparr>current = firstNonNull [slicerCurrent printStats, current metadataLayer,
                                    current progressLayer, fallbackCurrent th metadataLayer],
          total = firstNonNull [slicerTotal printStats, total metadataLayer,
                                  total progressLayer]\<rparr>)"

section \<open>Chamber temperature\<close>

record temps =
  temp_current :: rat
  temp_target :: rat

text \<open>\<open>Math.round(v)\<close> of a value; \<open>None\<close> is \<open>NaN\<close>.\<close>

definition roundVal :: "jsval \<Rightarrow> rat option" where
  "roundVal v = map_option mathRound (toNumber v)"

text \<open>
  \<open>function parseTempEntry(entry)\<close>. \<open>Number.isFinite(x)\<close> is \<open>x \<noteq> None\<close>.
\<close>

definition parseTempEntry :: "jsobj option \<Rightarrow> temps option" where
  "parseTempEntry entry =
     (case entry of
        None \<Rightarrow> None
      | Some e \<Rightarrow>
          (let cur = roundVal (nullish (e ''temperature'')
                       (nullish (e ''temp'') (nullish (e ''current'') (e ''temper''))));
               targetRaw = nullish (e ''target'')
                             (nullish (e ''target_temp'') (e ''target_temperature''));
               target = (if targetRaw \<noteq> Undefined \<and> targetRaw \<noteq> Null
                         then roundVal targetRaw
                         else roundVal (nullish (e ''temperature'')
                                (nullish (e ''temp'') (Num 0))))
           in (case cur of
                 None \<Rightarrow> None
               | Some c \<Rightarrow>
                   Some \<lparr>temp_current = c,
                         temp_target = (case target of Some t \<Rightarrow> t | None \<Rightarrow> c)\<rparr>)))"

text \<open>Predicates used to state the properties of the layer code.\<close>

definition layerCountNotNegative :: "jsobj option \<Rightarrow> bool" where
  "layerCountNotNegative metadata =
     (case metadata of
        None \<Rightarrow> True
      | Some md \<Rightarrow>
          (case asNumber (metadataLayerCount md) of None \<Rightarrow> True | Some n \<Rightarrow> 0 \<le> n))"

definition positiveOrNull :: "rat option \<Rightarrow> bool" where
  "positiveOrNull x = (case x of None \<Rightarrow> True | Some n \<Rightarrow> 0 < n)"

text \<open>A value that is not a positive number: absent, null, zero or negative.\<close>

abbreviation notPositive :: "jsval \<Rightarrow> bool" where
  "notPositive v \<equiv> (case v of Num x \<Rightarrow> x \<le> 0 | Undefined \<Rightarrow> True | Null \<Rightarrow> True)"


section \<open>Text\<close>

text \<open>
  A text is a list of characters with codes below 256: the G-code files and filenames
  that the overlay reads are ASCII, and a text with other code units is outside the
  model. White space is what \<open>String.prototype.trim\<close> strips and what \<open>\s\<close> matches
  in this range: tab, line feed, vertical tab, form feed, carriage return, space and the
  no-break space.
\<close>

definition whiteSpace :: "char list" where
  "whiteSpace = [CHR 0x09, CHR 0x0A, CHR 0x0B, CHR 0x0C, CHR 0x0D, CHR 0x20, CHR 0xA0]"

definition digits :: "char list" where
  "digits = ''0123456789''"

definition trim :: "string \<Rightarrow> string" where
  "trim s = rev (dropWhile (\<lambda>c. c \<in> set whiteSpace)
                  (rev (dropWhile (\<lambda>c. c \<in> set whiteSpace) s)))"

text \<open>
  \<open>toLowerCase\<close>: the letters A to Z, and the capital letters of the range 192 to 222
  (215 is the multiplication sign). \<open>upperChar\<close> is applied to the letters of a pattern
  only, which are a to z.
\<close>

definition lowerChar :: "char \<Rightarrow> char" where
  "lowerChar c = (let n = of_char c :: nat in
                  if (65 \<le> n \<and> n \<le> 90) \<or> (192 \<le> n \<and> n \<le> 222 \<and> n \<noteq> 215)
                  then char_of (n + 32) else c)"

definition upperChar :: "char \<Rightarrow> char" where
  "upperChar c = (let n = of_char c :: nat in
                  if 97 \<le> n \<and> n \<le> 122 then char_of (n - 32) else c)"

definition toLowerCase :: "string \<Rightarrow> string" where
  "toLowerCase s = map lowerChar s"

text \<open>\<open>s.startsWith(p)\<close> and \<open>s.includes(p)\<close>\<close>

fun startsWith :: "string \<Rightarrow> string \<Rightarrow> bool" where
  "startsWith s [] = True"
| "startsWith [] (p # ps) = False"
| "startsWith (x # xs) (p # ps) = (x = p \<and> startsWith xs ps)"

fun includesStr :: "string \<Rightarrow> string \<Rightarrow> bool" where
  "includesStr [] p = (p = [])"
| "includesStr (x # xs) p = (startsWith (x # xs) p \<or> includesStr xs p)"

text \<open>\<open>s.split("\n")\<close> and \<open>s.split(/\r?\n/)\<close>\<close>

fun splitLF :: "string \<Rightarrow> string list" where
  "splitLF [] = [[]]"
| "splitLF (x # xs) =
     (if x = CHR 0x0A then [] # splitLF xs
      else (case splitLF xs of [] \<Rightarrow> [[x]] | l # ls \<Rightarrow> (x # l) # ls))"

fun splitCRLF :: "string \<Rightarrow> string list" where
  "splitCRLF [] = [[]]"
| "splitCRLF [x] = (if x = CHR 0x0A then [[], []] else [[x]])"
| "splitCRLF (x # y # ys) =
     (if x = CHR 0x0D \<and> y = CHR 0x0A then [] # splitCRLF ys
      else if x = CHR 0x0A then [] # splitCRLF (y # ys)
      else (case splitCRLF (y # ys) of [] \<Rightarrow> [[x]] | l # ls \<Rightarrow> (x # l) # ls))"

section \<open>Regular expressions\<close>

text \<open>
  The regular expressions of the source, as syntax trees, and a backtracking matcher in
  the order of preference of JavaScript: the first alternative before the second, a
  greedy quantifier tries one more iteration before it goes on, a lazy one goes on
  before it tries an iteration, and an iteration that consumes nothing is rejected.
  The matcher takes the rest of the pattern as a continuation \<open>k\<close>. Capture groups are
  numbered; a group that took no part in the match is \<open>None\<close> (\<open>undefined\<close>). No
  pattern of the source has a group under a star, so the reset of the captures at each
  iteration has nothing to reset.
\<close>

datatype rx =
    Chr "char list"
  | AnyChr
  | Eps
  | EndOfInput
  | Seq rx rx
  | Alt rx rx
  | Opt rx
  | Star rx
  | LazyStar rx
  | Group nat rx

type_synonym caps = "nat \<Rightarrow> string option"

fun rxm :: "rx \<Rightarrow> string \<Rightarrow> caps \<Rightarrow> (string \<Rightarrow> caps \<Rightarrow> 'a option) \<Rightarrow> 'a option" where
  "rxm (Chr cs) s c k =
     (case s of [] \<Rightarrow> None | x # xs \<Rightarrow> (if x \<in> set cs then k xs c else None))"
| "rxm AnyChr s c k = (case s of [] \<Rightarrow> None | x # xs \<Rightarrow> k xs c)"
| "rxm Eps s c k = k s c"
| "rxm EndOfInput s c k = (if s = [] then k s c else None)"
| "rxm (Seq a b) s c k = rxm a s c (\<lambda>s' c'. rxm b s' c' k)"
| "rxm (Alt a b) s c k =
     (case rxm a s c k of Some r \<Rightarrow> Some r | None \<Rightarrow> rxm b s c k)"
| "rxm (Opt a) s c k =
     (case rxm a s c (\<lambda>s' c'. if length s' < length s then k s' c' else None) of
        Some r \<Rightarrow> Some r
      | None \<Rightarrow> k s c)"
| "rxm (Star a) s c k =
     (case rxm a s c (\<lambda>s' c'. if length s' < length s then rxm (Star a) s' c' k else None) of
        Some r \<Rightarrow> Some r
      | None \<Rightarrow> k s c)"
| "rxm (LazyStar a) s c k =
     (case k s c of
        Some r \<Rightarrow> Some r
      | None \<Rightarrow>
          rxm a s c (\<lambda>s' c'. if length s' < length s then rxm (LazyStar a) s' c' k else None))"
| "rxm (Group n a) s c k =
     rxm a s c (\<lambda>s' c'. k s' (c'(n := Some (take (length s - length s') s))))"

text \<open>
  One match: the matched text, the captures, and the text after the match.
  \<open>rxsearch\<close> is \<open>String.prototype.match\<close> (or \<open>exec\<close>) without the \<open>g\<close> flag: the match
  at the leftmost start position.
\<close>

record rxmatch =
  matched :: string
  groups :: caps
  after :: string

definition rxat :: "rx \<Rightarrow> string \<Rightarrow> rxmatch option" where
  "rxat r s =
     rxm r s (\<lambda>n. None)
       (\<lambda>s' c'. Some \<lparr>matched = take (length s - length s') s, groups = c', after = s'\<rparr>)"

fun rxsearch :: "rx \<Rightarrow> string \<Rightarrow> rxmatch option" where
  "rxsearch r [] = rxat r []"
| "rxsearch r (x # xs) =
     (case rxat r (x # xs) of Some m \<Rightarrow> Some m | None \<Rightarrow> rxsearch r xs)"

text \<open>Builders: a literal text, the same under the \<open>i\<close> flag, and \<open>a+\<close>.\<close>

fun lit :: "string \<Rightarrow> rx" where
  "lit [] = Eps"
| "lit [x] = Chr [x]"
| "lit (x # xs) = Seq (Chr [x]) (lit xs)"

fun liti :: "string \<Rightarrow> rx" where
  "liti [] = Eps"
| "liti [x] = Chr [lowerChar x, upperChar x]"
| "liti (x # xs) = Seq (Chr [lowerChar x, upperChar x]) (liti xs)"

definition Plus :: "rx \<Rightarrow> rx" where
  "Plus a = Seq a (Star a)"

fun seqs :: "rx list \<Rightarrow> rx" where
  "seqs [] = Eps"
| "seqs [a] = a"
| "seqs (a # as) = Seq a (seqs as)"

fun alts :: "rx list \<Rightarrow> rx" where
  "alts [] = Eps"
| "alts [a] = a"
| "alts (a # as) = Alt a (alts as)"

section \<open>Numbers in text\<close>

text \<open>
  \<open>Number(s)\<close> for a text \<open>s\<close> of decimal digits and dots, which is what the capture
  groups \<open>([\d.]+)\<close> and \<open>(\d+)\<close> hold: digits with at most one dot and at least one
  digit give their decimal value; anything else is \<open>NaN\<close>. A value of
  \<open>2^1024 - 2^970\<close> or more rounds to \<open>Infinity\<close> as a double. \<open>None\<close> stands for
  both, since every caller tests \<open>Number.isFinite\<close> next.
\<close>

definition digitVal :: "char \<Rightarrow> int" where
  "digitVal c = of_char c - 48"

definition intOfDigits :: "string \<Rightarrow> int" where
  "intOfDigits ds = foldl (\<lambda>n c. 10 * n + digitVal c) 0 ds"

definition strToNumber :: "string \<Rightarrow> rat option" where
  "strToNumber s =
     (let ip = takeWhile (\<lambda>c. c \<in> set digits) s;
          rest = dropWhile (\<lambda>c. c \<in> set digits) s
      in if 2 ^ 1024 - 2 ^ 970 \<le> intOfDigits ip then None
         else
           (case rest of
              [] \<Rightarrow> (if ip = [] then None else Some (of_int (intOfDigits ip)))
            | d # fp \<Rightarrow>
                (if d = CHR ''.'' \<and> list_all (\<lambda>c. c \<in> set digits) fp
                    \<and> (ip \<noteq> [] \<or> fp \<noteq> [])
                 then Some (of_int (intOfDigits ip)
                            + of_int (intOfDigits fp) / 10 ^ length fp)
                 else None)))"

text \<open>A number or null as a value.\<close>

definition ofNum :: "rat option \<Rightarrow> jsval" where
  "ofNum x = (case x of None \<Rightarrow> Null | Some n \<Rightarrow> Num n)"

section \<open>G-code header\<close>

text \<open>
  The patterns of \<open>parseGcodeHeader\<close>, in the order of the source. All carry the \<open>i\<close>
  flag.
\<close>

definition sepClass :: rx where
  \<comment> \<open>\<open>[:=\s]\<close>\<close>
  "sepClass = Chr ('':='' @ whiteSpace)"

definition spaces :: rx where
  \<comment> \<open>\<open>\s*\<close>\<close>
  "spaces = Star (Chr whiteSpace)"

definition optSep :: rx where
  \<comment> \<open>\<open>[_ ]?\<close>\<close>
  "optSep = Opt (Chr ''_ '')"

definition decimalGroup :: rx where
  \<comment> \<open>\<open>([\d.]+)\<close>\<close>
  "decimalGroup = Group 1 (Plus (Chr (digits @ ''.'')))"

definition digitsGroup :: "nat \<Rightarrow> rx" where
  \<comment> \<open>\<open>(\d+)\<close>\<close>
  "digitsGroup n = Group n (Plus (Chr digits))"

definition rxLayerHeight1 :: rx where
  \<comment> \<open>\<open>/layer[_ ]?height[:=\s]\s*([\d.]+)/i\<close>\<close>
  "rxLayerHeight1 =
     seqs [liti ''layer'', optSep, liti ''height'', sepClass, spaces, decimalGroup]"

definition rxLayerHeight2 :: rx where
  \<comment> \<open>\<open>/;\s*layer_height\s*=\s*([\d.]+)/i\<close>\<close>
  "rxLayerHeight2 =
     seqs [Chr '';'', spaces, liti ''layer_height'', spaces, Chr ''='', spaces, decimalGroup]"

definition rxFirstLayerHeight1 :: rx where
  \<comment> \<open>\<open>/first[_ ]?layer[_ ]?height[:=\s]\s*([\d.]+)/i\<close>\<close>
  "rxFirstLayerHeight1 =
     seqs [liti ''first'', optSep, liti ''layer'', optSep, liti ''height'', sepClass, spaces,
           decimalGroup]"

definition rxFirstLayerHeight2 :: rx where
  \<comment> \<open>\<open>/initial[_ ]?layer[_ ]?height[:=\s]\s*([\d.]+)/i\<close>\<close>
  "rxFirstLayerHeight2 =
     seqs [liti ''initial'', optSep, liti ''layer'', optSep, liti ''height'', sepClass, spaces,
           decimalGroup]"

definition rxLayerCount1 :: rx where
  \<comment> \<open>\<open>/layer[_ ]?(?:count|total|totals?)[:=\s]\s*([\d]+)/i\<close>\<close>
  "rxLayerCount1 =
     seqs [liti ''layer'', optSep,
           alts [liti ''count'', liti ''total'', Seq (liti ''total'') (Opt (liti ''s''))],
           sepClass, spaces, digitsGroup 1]"

definition rxLayerCount2 :: rx where
  \<comment> \<open>\<open>/total[_ ]?layers?[:=\s]\s*([\d]+)/i\<close>\<close>
  "rxLayerCount2 =
     seqs [liti ''total'', optSep, liti ''layer'', Opt (liti ''s''), sepClass, spaces,
           digitsGroup 1]"

definition rxLayerCount3 :: rx where
  \<comment> \<open>\<open>/;\s*total_layer_count\s*=\s*([\d]+)/i\<close>\<close>
  "rxLayerCount3 =
     seqs [Chr '';'', spaces, liti ''total_layer_count'', spaces, Chr ''='', spaces,
           digitsGroup 1]"

definition rxEstimatedTime1 :: rx where
  \<comment> \<open>\<open>/(?:estimated[_ ]?time|estimated[_ ]?print[_ ]?time|print[_ ]?time)[:=\s]\s*([\d.]+)/i\<close>\<close>
  "rxEstimatedTime1 =
     seqs [alts [seqs [liti ''estimated'', optSep, liti ''time''],
                 seqs [liti ''estimated'', optSep, liti ''print'', optSep, liti ''time''],
                 seqs [liti ''print'', optSep, liti ''time'']],
           sepClass, spaces, decimalGroup]"

definition rxEstimatedTime2 :: rx where
  \<comment> \<open>\<open>/;time[:=\s]\s*([\d.]+)/i\<close>\<close>
  "rxEstimatedTime2 = seqs [Chr '';'', liti ''time'', sepClass, spaces, decimalGroup]"

definition rxEstimatedTime3 :: rx where
  \<comment> \<open>\<open>/;\s*estimated_printing_time\(normal\)\s*=\s*([\d.]+)/i\<close>\<close>
  "rxEstimatedTime3 =
     seqs [Chr '';'', spaces, liti ''estimated_printing_time(normal)'', spaces, Chr ''='',
           spaces, decimalGroup]"

definition rxObjectHeight :: rx where
  \<comment> \<open>\<open>/(?:maxz|max_z|height|object[_ ]?height)[:=\s]\s*([\d.]+)/i\<close>\<close>
  "rxObjectHeight =
     seqs [alts [liti ''maxz'', liti ''max_z'', liti ''height'',
                 seqs [liti ''object'', optSep, liti ''height'']],
           sepClass, spaces, decimalGroup]"

text \<open>
  \<open>const numberFromLine = (line, regex) => {
      const match = line.match(regex);
      if (!match) return null;
      const num = Number(match[1]);
      return Number.isFinite(num) ? num : null; };\<close>
\<close>

definition numberFromLine :: "string \<Rightarrow> rx \<Rightarrow> rat option" where
  "numberFromLine line regex =
     (case rxsearch regex line of
        None \<Rightarrow> None
      | Some m \<Rightarrow> (case groups m 1 of None \<Rightarrow> None | Some g \<Rightarrow> strToNumber g))"

text \<open>\<open>meta.key = meta.key ?? numberFromLine(lower, regex)\<close>\<close>

definition fillFrom :: "string \<Rightarrow> string \<Rightarrow> rx \<Rightarrow> jsobj \<Rightarrow> jsobj" where
  "fillFrom key lower regex meta =
     meta(key := nullish (meta key) (ofNum (numberFromLine lower regex)))"

text \<open>The body of the loop over the lines of \<open>parseGcodeHeader\<close>.\<close>

definition scanLine :: "jsobj \<Rightarrow> string \<Rightarrow> jsobj" where
  "scanLine meta rawLine =
     (let line = trim rawLine
      in if \<not> startsWith line '';'' then meta
         else
           (let lower = toLowerCase line;
                meta1 = fillFrom ''layer_height'' lower rxLayerHeight1 meta;
                meta2 = fillFrom ''layer_height'' lower rxLayerHeight2 meta1;
                meta3 = fillFrom ''first_layer_height'' lower rxFirstLayerHeight1 meta2;
                meta4 = fillFrom ''first_layer_height'' lower rxFirstLayerHeight2 meta3;
                meta5 = fillFrom ''layer_count'' lower rxLayerCount1 meta4;
                meta6 = fillFrom ''layer_count'' lower rxLayerCount2 meta5;
                meta7 = fillFrom ''layer_count'' lower rxLayerCount3 meta6;
                meta8 = fillFrom ''estimated_time'' lower rxEstimatedTime1 meta7;
                meta9 = fillFrom ''estimated_time'' lower rxEstimatedTime2 meta8;
                meta10 = fillFrom ''estimated_time'' lower rxEstimatedTime3 meta9
            in (case numberFromLine lower rxObjectHeight of
                  None \<Rightarrow> meta10
                | Some heightVal \<Rightarrow>
                    meta10(''object_height'' :=
                             nullish (meta10 ''object_height'') (Num heightVal)))))"

text \<open>
  The scan: \<open>text.split(/\r?\n/).slice(0, 500)\<close>, then the loop, starting from
  \<open>meta = {}\<close>.
\<close>

definition scanHeader :: "string \<Rightarrow> jsobj" where
  "scanHeader text = foldl scanLine emptyObj (take 500 (splitCRLF text))"

text \<open>The two derivations after the loop.\<close>

definition deriveObjectHeight :: "jsobj \<Rightarrow> jsobj" where
  "deriveObjectHeight meta =
     (case (meta ''layer_height'', meta ''layer_count'') of
        (Num h, Num n) \<Rightarrow>
          (if \<not> truthy (meta ''object_height'') \<and> h \<noteq> 0 \<and> n \<noteq> 0
           then meta(''object_height'' := Num (h * n))
           else meta)
      | _ \<Rightarrow> meta)"

definition deriveLayerCount :: "jsobj \<Rightarrow> jsobj" where
  "deriveLayerCount meta =
     (case (meta ''object_height'', meta ''layer_height'') of
        (Num oh, Num h) \<Rightarrow>
          (if oh \<noteq> 0 \<and> h \<noteq> 0 \<and> \<not> truthy (meta ''layer_count'')
           then (let firstLayer = orNum (meta ''first_layer_height'') h
                 in meta(''layer_count'' := Num (max 1 (mathRound ((oh - firstLayer) / h + 1)))))
           else meta)
      | _ \<Rightarrow> meta)"

text \<open>\<open>function parseGcodeHeader(text)\<close>\<close>

definition parseGcodeHeader :: "string \<Rightarrow> jsobj option" where
  "parseGcodeHeader text =
     (if text = [] then None
      else
        (let meta = deriveLayerCount (deriveObjectHeight (scanHeader text))
         in if truthy (meta ''layer_height'') \<or> truthy (meta ''first_layer_height'')
               \<or> truthy (meta ''layer_count'') \<or> truthy (meta ''object_height'')
            then Some meta
            else None))"

section \<open>Metadata cache\<close>

text \<open>
  \<open>const metadataCache = { filename: null, data: null, source: null };\<close>
\<close>

record metadata_cache =
  cache_filename :: "string option"
  cache_data :: "jsobj option"
  cache_source :: "string option"

definition emptyCache :: metadata_cache where
  "emptyCache = \<lparr>cache_filename = None, cache_data = None, cache_source = None\<rparr>"

text \<open>
  What the printer answers: to the metadata request for a file, the \<open>result\<close> object
  of the response (\<open>None\<close> when the request fails, the response is not ok or the result
  is falsy); to the range request for the first bytes of a file, its text (\<open>None\<close>
  when the request fails or the response is not ok). The requests that a call sends
  are returned next to its result.
\<close>

record printer =
  apiMetadata :: "string \<Rightarrow> jsobj option"
  gcodeRange :: "string \<Rightarrow> string option"

datatype request = MetadataRequest string | GcodeRangeRequest string

text \<open>\<open>async function fetchMetadata(filename)\<close>: data, source and the requests sent.\<close>

definition fetchMetadata :: "printer \<Rightarrow> string \<Rightarrow> (jsobj \<times> string) option \<times> request list" where
  "fetchMetadata p fname =
     (if fname = [] then (None, [])
      else
        (case apiMetadata p fname of
           Some apiMeta \<Rightarrow> (Some (apiMeta, ''api''), [MetadataRequest fname])
         | None \<Rightarrow>
             (case (case gcodeRange p fname of
                      None \<Rightarrow> None
                    | Some text \<Rightarrow> parseGcodeHeader text) of
                Some headerMeta \<Rightarrow>
                  (Some (headerMeta, ''gcode-header''),
                   [MetadataRequest fname, GcodeRangeRequest fname])
              | None \<Rightarrow> (None, [MetadataRequest fname, GcodeRangeRequest fname]))))"

text \<open>The two patterns that \<open>ensureMetadataLoaded\<close> applies to the filename.\<close>

definition rxFilenameHeight :: rx where
  \<comment> \<open>\<open>/[_\s\.]0\.(\d+)(?:[_\s\.]|mm|$)/i\<close>\<close>
  "rxFilenameHeight =
     seqs [Chr (''_'' @ whiteSpace @ ''.''), Chr ''0'', Chr ''.'', digitsGroup 1,
           alts [Chr (''_'' @ whiteSpace @ ''.''), liti ''mm'', EndOfInput]]"

definition rxFilenameTime :: rx where
  \<comment> \<open>\<open>/(?:(\d+)d)?(?:(\d+)h)?(?:(\d+)m)?/i\<close>\<close>
  "rxFilenameTime =
     seqs [Opt (Seq (digitsGroup 1) (liti ''d'')),
           Opt (Seq (digitsGroup 2) (liti ''h'')),
           Opt (Seq (digitsGroup 3) (liti ''m''))]"

text \<open>
  The first patch of \<open>ensureMetadataLoaded\<close>: the layer height from the filename, and
  the layer count that follows from it.
\<close>

definition inferLayerHeight :: "string \<Rightarrow> jsobj \<Rightarrow> jsobj" where
  "inferLayerHeight fname data =
     (if truthy (data ''layer_height'') then data
      else
        (case rxsearch rxFilenameHeight fname of
           None \<Rightarrow> data
         | Some filenameMatch \<Rightarrow>
             (case strToNumber (''0.'' @ (case groups filenameMatch 1 of
                                            None \<Rightarrow> [] | Some g \<Rightarrow> g)) of
                None \<Rightarrow> data
              | Some inferredHeight \<Rightarrow>
                  (if 5 / 100 \<le> inferredHeight \<and> inferredHeight \<le> 5 / 10
                   then
                     (let data1 = data(''layer_height'' := Num inferredHeight)
                      in (case data1 ''object_height'' of
                            Num oh \<Rightarrow>
                              (if oh \<noteq> 0 \<and> \<not> truthy (data1 ''layer_count'')
                               then
                                 (let firstLayer =
                                        orNum (data1 ''first_layer_height'') inferredHeight
                                  in data1(''layer_count'' :=
                                       Num (max 1 (mathRound
                                              ((oh - firstLayer) / inferredHeight + 1)))))
                               else data1)
                          | Undefined \<Rightarrow> data1
                          | Null \<Rightarrow> data1))
                   else data))))"

text \<open>The second patch: the estimated time from the filename.\<close>

definition groupSet :: "string option \<Rightarrow> bool" where
  \<comment> \<open>a capture as a condition: \<open>undefined\<close> and the empty text are falsy\<close>
  "groupSet g = (case g of None \<Rightarrow> False | Some ds \<Rightarrow> ds \<noteq> [])"

definition groupSeconds :: "string option \<Rightarrow> int \<Rightarrow> int" where
  \<comment> \<open>\<open>if (timeMatch[i]) seconds += parseInt(timeMatch[i], 10) * unit\<close>\<close>
  "groupSeconds g unit =
     (case g of None \<Rightarrow> 0 | Some ds \<Rightarrow> (if ds = [] then 0 else intOfDigits ds * unit))"

definition inferEstimatedTime :: "string \<Rightarrow> jsobj \<Rightarrow> jsobj" where
  "inferEstimatedTime fname data =
     (if truthy (data ''estimated_time'') then data
      else
        (case rxsearch rxFilenameTime fname of
           None \<Rightarrow> data
         | Some timeMatch \<Rightarrow>
             (if groupSet (groups timeMatch 1) \<or> groupSet (groups timeMatch 2)
                 \<or> groupSet (groups timeMatch 3)
              then
                (let seconds = groupSeconds (groups timeMatch 1) 86400
                             + groupSeconds (groups timeMatch 2) 3600
                             + groupSeconds (groups timeMatch 3) 60
                 in if 0 < seconds then data(''estimated_time'' := Num (of_int seconds))
                    else data)
              else data)))"

text \<open>
  \<open>async function ensureMetadataLoaded(filename, state)\<close>: the cache after the call and
  the requests sent. An empty filename stands for every falsy one.
\<close>

definition ensureMetadataLoaded ::
  "printer \<Rightarrow> string \<Rightarrow> string \<Rightarrow> metadata_cache \<Rightarrow> metadata_cache \<times> request list" where
  "ensureMetadataLoaded p fname st cache =
     (if st \<noteq> ''printing'' \<or> fname = [] then (cache, [])
      else if cache_filename cache = Some fname \<and> cache_data cache \<noteq> None then (cache, [])
      else
        (case fetchMetadata p fname of
           (metaResult, sent) \<Rightarrow>
             (\<lparr>cache_filename = Some fname,
               cache_data =
                 map_option (\<lambda>r. inferEstimatedTime fname (inferLayerHeight fname (fst r)))
                   metaResult,
               cache_source = map_option snd metaResult\<rparr>,
              sent)))"

section \<open>Thumbnail\<close>

definition blockRegex :: rx where
  \<comment> \<open>\<open>/; thumbnail begin \d+x\d+ \d+([\s\S]*?); thumbnail end/g\<close>\<close>
  "blockRegex =
     seqs [lit ''; thumbnail begin '', Plus (Chr digits), Chr ''x'', Plus (Chr digits),
           Chr '' '', Plus (Chr digits), Group 1 (LazyStar AnyChr), lit ''; thumbnail end'']"

text \<open>
  \<open>match[1].split("\n").map(line => line.trim().replace(/^;/, "").trim())
      .filter(Boolean).join("")\<close>
\<close>

definition stripMarker :: "string \<Rightarrow> string" where
  "stripMarker line =
     (let t = trim line in trim (if startsWith t '';'' then drop 1 t else t))"

definition cleanBlock :: "string \<Rightarrow> string" where
  "cleanBlock b = concat (filter (\<lambda>l. l \<noteq> []) (map stripMarker (splitLF b)))"

section \<open>Retry of the status poll\<close>

text \<open>
  The \<open>catch\<close> branch of \<open>fetchPrintStatus\<close>. The state is \<open>apiRetryCount\<close>; the outcome
  of one failed poll is a retry scheduled after a delay in ms, or a terminal status
  text with no retry.
\<close>

definition maxApiRetries :: nat where
  "maxApiRetries = 5"

datatype outcome = RetryIn nat | Terminal string

definition isNetworkError :: "string \<Rightarrow> bool" where
  "isNetworkError message =
     (includesStr message ''Failed to fetch'' \<or> includesStr message ''NetworkError''
      \<or> includesStr message ''TypeError'')"

definition terminalText :: "string \<Rightarrow> string \<Rightarrow> string" where
  "terminalText printerIp message =
     (if includesStr message ''HTTP 401'' \<or> includesStr message ''HTTP 403''
      then ''Authentication Error''
      else if includesStr message ''HTTP 404'' then ''API Not Found''
      else ''Unreachable: '' @ printerIp)"

definition onPollError :: "string \<Rightarrow> string \<Rightarrow> nat \<Rightarrow> nat \<times> outcome" where
  "onPollError printerIp message apiRetryCount =
     (if isNetworkError message \<and> apiRetryCount < maxApiRetries
      then (let count = apiRetryCount + 1
            in (count, RetryIn (min (2000 * 2 ^ (count - 1)) 30000)))
      else (apiRetryCount, Terminal (terminalText printerIp message)))"

text \<open>Consecutive failed polls: the outcomes, from a given retry count on.\<close>

fun pollFailures :: "string \<Rightarrow> string list \<Rightarrow> nat \<Rightarrow> outcome list" where
  "pollFailures printerIp [] apiRetryCount = []"
| "pollFailures printerIp (message # messages) apiRetryCount =
     (case onPollError printerIp message apiRetryCount of
        (count, out) \<Rightarrow> out # pollFailures printerIp messages count)"

text \<open>
  A match of the matcher ends inside the text it started on, and a match of
  \<open>blockRegex\<close> consumes at least its first character; the loop over the thumbnail
  blocks terminates by this.
\<close>

lemma rxm_after:
  "rxm r s c k = Some res \<Longrightarrow> \<exists>s' c'. length s' \<le> length s \<and> k s' c' = Some res"
proof (induction r s c k arbitrary: res rule: rxm.induct)
  case (1 cs s c k)
  then show ?case by (cases s) (auto split: if_splits intro: le_SucI)
next
  case (2 s c k)
  then show ?case by (cases s) (auto intro: le_SucI)
next
  case (3 s c k)
  then show ?case by auto
next
  case (4 s c k)
  then show ?case by (auto split: if_splits)
next
  case (5 a b s c k)
  from "5.prems" have "rxm a s c (\<lambda>s' c'. rxm b s' c' k) = Some res" by simp
  from "5.IH"(2) [OF this] obtain s1 c1
    where l1: "length s1 \<le> length s" and m1: "rxm b s1 c1 k = Some res" by blast
  from "5.IH"(1) [OF m1] obtain s2 c2
    where "length s2 \<le> length s1" and "k s2 c2 = Some res" by blast
  with l1 show ?case by (meson le_trans)
next
  case (6 a b s c k)
  show ?case
  proof (cases "rxm a s c k")
    case None
    with "6.prems" have "rxm b s c k = Some res" by simp
    from "6.IH"(2) [OF None this] show ?thesis .
  next
    case (Some r)
    with "6.prems" have "rxm a s c k = Some res" by simp
    from "6.IH"(1) [OF this] show ?thesis .
  qed
next
  case (7 a s c k)
  let ?k = "\<lambda>s' c'. if length s' < length s then k s' c' else None"
  show ?case
  proof (cases "rxm a s c ?k")
    case None
    with "7.prems" have "k s c = Some res" by simp
    then show ?thesis by auto
  next
    case (Some r)
    with "7.prems" have "rxm a s c ?k = Some res" by simp
    from "7.IH" [OF this] obtain s1 c1
      where "length s1 \<le> length s" and "?k s1 c1 = Some res" by blast
    then have "length s1 \<le> length s \<and> k s1 c1 = Some res" by (auto split: if_splits)
    then show ?thesis by blast
  qed
next
  case (8 a s c k)
  let ?k = "\<lambda>s' c'. if length s' < length s then rxm (Star a) s' c' k else None"
  show ?case
  proof (cases "rxm a s c ?k")
    case None
    with "8.prems" have "k s c = Some res" by simp
    then show ?thesis by auto
  next
    case (Some r)
    with "8.prems" have "rxm a s c ?k = Some res" by simp
    from "8.IH"(2) [OF this] obtain s1 c1
      where l1: "length s1 \<le> length s" and k1: "?k s1 c1 = Some res" by blast
    from k1 have lt: "length s1 < length s" and m1: "rxm (Star a) s1 c1 k = Some res"
      by (auto split: if_splits)
    from "8.IH"(1) [OF lt m1] obtain s2 c2
      where "length s2 \<le> length s1" and "k s2 c2 = Some res" by blast
    with l1 show ?thesis by (meson le_trans)
  qed
next
  case (9 a s c k)
  let ?k = "\<lambda>s' c'. if length s' < length s then rxm (LazyStar a) s' c' k else None"
  show ?case
  proof (cases "k s c")
    case (Some r)
    with "9.prems" have "k s c = Some res" by simp
    then show ?thesis by auto
  next
    case None
    with "9.prems" have "rxm a s c ?k = Some res" by simp
    from "9.IH"(2) [OF None this] obtain s1 c1
      where l1: "length s1 \<le> length s" and k1: "?k s1 c1 = Some res" by blast
    from k1 have lt: "length s1 < length s" and m1: "rxm (LazyStar a) s1 c1 k = Some res"
      by (auto split: if_splits)
    from "9.IH"(1) [OF None lt m1] obtain s2 c2
      where "length s2 \<le> length s1" and "k s2 c2 = Some res" by blast
    with l1 show ?thesis by (meson le_trans)
  qed
next
  case (10 n a s c k)
  from "10.prems" have
    "rxm a s c (\<lambda>s' c'. k s' (c'(n := Some (take (length s - length s') s)))) = Some res"
    by simp
  from "10.IH" [OF this] show ?case by blast
qed

lemma rxat_after: "rxat r s = Some m \<Longrightarrow> length (after m) \<le> length s"
  unfolding rxat_def by (drule rxm_after) auto

lemma rxat_Chr_after:
  "rxat (Seq (Seq (Chr cs) a) b) s = Some m \<Longrightarrow> length (after m) < length s"
proof -
  assume a: "rxat (Seq (Seq (Chr cs) a) b) s = Some m"
  then obtain x xs where s: "s = x # xs"
    by (cases s) (auto simp: rxat_def)
  let ?k = "\<lambda>s' c'. Some \<lparr>matched = take (length s - length s') s, groups = c', after = s'\<rparr>"
  from a s have "rxm a xs (\<lambda>n. None) (\<lambda>s' c'. rxm b s' c' ?k) = Some m"
    by (auto simp: rxat_def split: if_splits)
  from rxm_after [OF this] obtain s1 c1
    where l1: "length s1 \<le> length xs" and "rxm b s1 c1 ?k = Some m" by blast
  from rxm_after [OF this(2)] obtain s2 c2
    where "length s2 \<le> length s1" and "?k s2 c2 = Some m" by blast
  with l1 s show ?thesis by auto
qed

lemma rxsearch_Chr_after:
  "rxsearch (Seq (Seq (Chr cs) a) b) s = Some m \<Longrightarrow> length (after m) < length s"
proof (induction s)
  case Nil
  then show ?case using rxat_Chr_after [of cs a b "[]" m] by simp
next
  case (Cons x xs)
  show ?case
  proof (cases "rxat (Seq (Seq (Chr cs) a) b) (x # xs)")
    case None
    with Cons.prems have "rxsearch (Seq (Seq (Chr cs) a) b) xs = Some m" by simp
    from Cons.IH [OF this] show ?thesis by simp
  next
    case (Some m')
    with Cons.prems have "m' = m" by simp
    with Some rxat_Chr_after [of cs a b "x # xs" m] show ?thesis by simp
  qed
qed

lemma blockRegex_shape:
  "\<exists>a b. blockRegex = Seq (Seq (Chr '';'') a) b"
  by (simp add: blockRegex_def)

lemma blockRegex_after:
  "rxsearch blockRegex text = Some m \<Longrightarrow> length (after m) < length text"
  using blockRegex_shape rxsearch_Chr_after by metis

text \<open>The captured text of group 1 of a match (\<open>match[1]\<close>).\<close>

definition group1 :: "rxmatch \<Rightarrow> string" where
  "group1 m = (case groups m 1 of None \<Rightarrow> [] | Some g \<Rightarrow> g)"

text \<open>
  The loop of \<open>extractThumbnailFromGcode\<close>:
  \<open>let lastBlock = null;
    while ((match = blockRegex.exec(text)) !== null) { ...; lastBlock = b64; }
    return lastBlock;\<close>
  With the \<open>g\<close> flag the next \<open>exec\<close> starts where the last match ended, so the loop
  goes on with the text after the match.
\<close>

function thumbnailLoop :: "string \<Rightarrow> string option \<Rightarrow> string option" where
  "thumbnailLoop text lastBlock =
     (case rxsearch blockRegex text of
        None \<Rightarrow> lastBlock
      | Some m \<Rightarrow> thumbnailLoop (after m) (Some (cleanBlock (group1 m))))"
  by pat_completeness auto
termination
  by (relation "measure (\<lambda>(text, lastBlock). length text)") (auto dest: blockRegex_after)

declare thumbnailLoop.simps [simp del]

text \<open>
  \<open>async function extractThumbnailFromGcode(filename)\<close>; \<open>fetchRange\<close> is the answer to
  the range request for the first 100001 bytes of the file, \<open>None\<close> when the request
  fails or the response is not ok.
\<close>

definition extractThumbnailFromGcode :: "(string \<Rightarrow> string option) \<Rightarrow> string \<Rightarrow> string option" where
  "extractThumbnailFromGcode fetchRange fname =
     (if fname = [] then None
      else (case fetchRange fname of None \<Rightarrow> None | Some text \<Rightarrow> thumbnailLoop text None))"

text \<open>
  The thumbnail blocks of a text, first to last: the payload (group 1) of every match of
  \<open>blockRegex\<close>, each match searched after the end of the one before.
\<close>

function thumbnailBlocks :: "string \<Rightarrow> string list" where
  "thumbnailBlocks text =
     (case rxsearch blockRegex text of
        None \<Rightarrow> []
      | Some m \<Rightarrow> group1 m # thumbnailBlocks (after m))"
  by pat_completeness auto
termination
  by (relation "measure length") (auto dest: blockRegex_after)

declare thumbnailBlocks.simps [simp del]

text \<open>The five fields that the scan of a header can populate.\<close>

definition headerFields :: "jsobj \<Rightarrow> jsval \<times> jsval \<times> jsval \<times> jsval \<times> jsval" where
  "headerFields meta =
     (meta ''layer_height'', meta ''first_layer_height'', meta ''layer_count'',
      meta ''object_height'', meta ''estimated_time'')"

section \<open>Properties\<close>

text \<open>
  C3: for every progress \<open>p\<close> and print duration \<open>d \<ge> 0\<close>, the progress-based
  remaining time is \<open>d / p - d\<close> when \<open>0 < p < 1\<close>, and null when \<open>p \<le> 0\<close> or
  \<open>p \<ge> 1\<close>.
\<close>

theorem remaining_from_progress:
  assumes "0 \<le> d"
  shows "(0 < p \<and> p < 1 \<longrightarrow> computeRemainingFromProgress p d = Some (d / p - d))
       \<and> (p \<le> 0 \<or> 1 \<le> p \<longrightarrow> computeRemainingFromProgress p d = None)"
  by (auto simp: computeRemainingFromProgress_def)

theorem remaining_from_progress_witness:
  "(0::rat) \<le> 600
   \<and> computeRemainingFromProgress (1 / 4) 600 = Some 1800
   \<and> computeRemainingFromProgress 0 600 = None
   \<and> computeRemainingFromProgress 1 600 = None"
  using remaining_from_progress [of 600 "1 / 4"]
        remaining_from_progress [of 600 0]
        remaining_from_progress [of 600 1]
  by simp

subsection \<open>Layers\<close>

lemma firstNonNull_positive:
  "list_all positiveOrNull vs \<Longrightarrow> positiveOrNull (firstNonNull vs)"
  by (induction vs rule: firstNonNull.induct) (simp_all add: positiveOrNull_def)

lemma metadata_total_positive:
  assumes "layerCountNotNegative md"
  shows "positiveOrNull (total (computeLayerFromMetadata th md))"
  using assms
  by (auto simp: computeLayerFromMetadata_def layerCountNotNegative_def positiveOrNull_def
        orNull_def Let_def split: option.splits jsval.splits if_splits)

lemma metadata_current_positive:
  assumes "layerCountNotNegative md"
  shows "positiveOrNull (current (computeLayerFromMetadata th md))"
  using assms
  by (auto simp: computeLayerFromMetadata_def layerCountNotNegative_def positiveOrNull_def
        orNull_def Let_def split: option.splits jsval.splits if_splits)

lemma progress_total_positive:
  assumes "layerCountNotNegative md"
  shows "positiveOrNull (total (computeLayerFromProgress ds md))"
  using assms
  by (auto simp: computeLayerFromProgress_def layerCountNotNegative_def positiveOrNull_def
        orNull_def Let_def split: option.splits jsval.splits if_splits)

lemma progress_current_positive:
  "positiveOrNull (current (computeLayerFromProgress ds md))"
  by (auto simp: computeLayerFromProgress_def positiveOrNull_def
        orNull_def Let_def split: option.splits jsval.splits if_splits)

lemma fallback_positive: "positiveOrNull (fallbackCurrent th ml)"
  by (auto simp: fallbackCurrent_def positiveOrNull_def split: jsval.splits)






text \<open>
  C2 as stated fails: a slicer-reported current layer of 0 is returned as 0, although
  the metadata geometry gives layer 9 for the same poll.
\<close>

theorem layer_zero_counterexample:
  "current (getLayerInfo
        \<lparr>state = ''printing'', filename = ''a.gcode'',
         info = Some (emptyObj(''current_layer'' := Num 0)),
         print_duration = Num 100, total_duration = Num 120\<rparr>
        (Some (emptyObj(''progress'' := Num (1 / 8))))
        (Some \<lparr>position = Some [Num 10, Num 20, Num (9 / 4), Num 0]\<rparr>)
        (Some (emptyObj(''layer_height'' := Num (1 / 4),
                 ''first_layer_height'' := Num (1 / 4), ''layer_count'' := Num 96)))) = Some 0
   \<and> current (computeLayerFromMetadata
        (Some \<lparr>position = Some [Num 10, Num 20, Num (9 / 4), Num 0]\<rparr>)
        (Some (emptyObj(''layer_height'' := Num (1 / 4),
                 ''first_layer_height'' := Num (1 / 4), ''layer_count'' := Num 96)))) = Some 9"
  by code_simp

text \<open>
  C2, amended: \<open>getLayerInfo\<close> returns a slicer-reported current or total layer as it
  is, whatever its sign. When the slicer reports none and the layer count of the
  metadata is not negative, the current layer and the total layer that it returns are
  null or positive.
\<close>

theorem layers_positive_unless_slicer:
  "(slicerCurrent ps = Some v \<longrightarrow> current (getLayerInfo ps ds th md) = Some v)
   \<and> (slicerTotal ps = Some w \<longrightarrow> total (getLayerInfo ps ds th md) = Some w)
   \<and> (slicerCurrent ps = None \<and> layerCountNotNegative md
        \<longrightarrow> positiveOrNull (current (getLayerInfo ps ds th md)))
   \<and> (slicerTotal ps = None \<and> layerCountNotNegative md
        \<longrightarrow> positiveOrNull (total (getLayerInfo ps ds th md)))"
proof (intro conjI impI)
  assume "slicerCurrent ps = Some v"
  then show "current (getLayerInfo ps ds th md) = Some v"
    by (simp add: getLayerInfo_def Let_def)
next
  assume "slicerTotal ps = Some w"
  then show "total (getLayerInfo ps ds th md) = Some w"
    by (simp add: getLayerInfo_def Let_def)
next
  assume a: "slicerCurrent ps = None \<and> layerCountNotNegative md"
  have "positiveOrNull (firstNonNull [current (computeLayerFromMetadata th md),
          current (computeLayerFromProgress ds md),
          fallbackCurrent th (computeLayerFromMetadata th md)])"
    using a by (intro firstNonNull_positive)
      (simp add: metadata_current_positive progress_current_positive fallback_positive)
  with a show "positiveOrNull (current (getLayerInfo ps ds th md))"
    by (simp add: getLayerInfo_def Let_def)
next
  assume a: "slicerTotal ps = None \<and> layerCountNotNegative md"
  have "positiveOrNull (firstNonNull [total (computeLayerFromMetadata th md),
          total (computeLayerFromProgress ds md)])"
    using a by (intro firstNonNull_positive)
      (simp add: metadata_total_positive progress_total_positive)
  with a show "positiveOrNull (total (getLayerInfo ps ds th md))"
    by (simp add: getLayerInfo_def Let_def)
qed

theorem layers_positive_unless_slicer_witness:
  "slicerCurrent \<lparr>state = ''printing'', filename = ''a.gcode'',
       info = Some (emptyObj(''current_layer'' := Num 0, ''total_layer'' := Num (- 3))),
       print_duration = Num 100, total_duration = Num 120\<rparr> = Some 0
   \<and> slicerTotal \<lparr>state = ''printing'', filename = ''a.gcode'',
       info = Some (emptyObj(''current_layer'' := Num 0, ''total_layer'' := Num (- 3))),
       print_duration = Num 100, total_duration = Num 120\<rparr> = Some (- 3)
   \<and> current (getLayerInfo
        \<lparr>state = ''printing'', filename = ''a.gcode'',
         info = Some (emptyObj(''current_layer'' := Num 0, ''total_layer'' := Num (- 3))),
         print_duration = Num 100, total_duration = Num 120\<rparr>
        None
        (Some \<lparr>position = Some [Num 10, Num 20, Num (9 / 4), Num 0]\<rparr>)
        (Some (emptyObj(''layer_height'' := Num (1 / 4), ''layer_count'' := Num 96)))) = Some 0
   \<and> total (getLayerInfo
        \<lparr>state = ''printing'', filename = ''a.gcode'',
         info = Some (emptyObj(''current_layer'' := Num 0, ''total_layer'' := Num (- 3))),
         print_duration = Num 100, total_duration = Num 120\<rparr>
        None
        (Some \<lparr>position = Some [Num 10, Num 20, Num (9 / 4), Num 0]\<rparr>)
        (Some (emptyObj(''layer_height'' := Num (1 / 4), ''layer_count'' := Num 96))))
       = Some (- 3)
   \<and> slicerCurrent \<lparr>state = ''printing'', filename = ''a.gcode'', info = None,
       print_duration = Num 100, total_duration = Num 120\<rparr> = None
   \<and> slicerTotal \<lparr>state = ''printing'', filename = ''a.gcode'', info = None,
       print_duration = Num 100, total_duration = Num 120\<rparr> = None
   \<and> layerCountNotNegative
        (Some (emptyObj(''layer_height'' := Num (1 / 4), ''layer_count'' := Num 96)))
   \<and> positiveOrNull (current (getLayerInfo
        \<lparr>state = ''printing'', filename = ''a.gcode'', info = None,
         print_duration = Num 100, total_duration = Num 120\<rparr>
        None
        (Some \<lparr>position = Some [Num 10, Num 20, Num (9 / 4), Num 0]\<rparr>)
        (Some (emptyObj(''layer_height'' := Num (1 / 4), ''layer_count'' := Num 96)))))
   \<and> positiveOrNull (total (getLayerInfo
        \<lparr>state = ''printing'', filename = ''a.gcode'', info = None,
         print_duration = Num 100, total_duration = Num 120\<rparr>
        None
        (Some \<lparr>position = Some [Num 10, Num 20, Num (9 / 4), Num 0]\<rparr>)
        (Some (emptyObj(''layer_height'' := Num (1 / 4), ''layer_count'' := Num 96)))))"
proof -
  let ?md = "Some (emptyObj(''layer_height'' := Num (1 / 4), ''layer_count'' := Num 96))"
  let ?th = "Some \<lparr>position = Some [Num 10, Num 20, Num (9 / 4), Num 0]\<rparr>"
  let ?psS = "\<lparr>state = ''printing'', filename = ''a.gcode'',
         info = Some (emptyObj(''current_layer'' := Num 0, ''total_layer'' := Num (- 3))),
         print_duration = Num 100, total_duration = Num 120\<rparr>"
  let ?ps = "\<lparr>state = ''printing'', filename = ''a.gcode'', info = None,
       print_duration = Num 100, total_duration = Num 120\<rparr>"
  have c0: "slicerCurrent ?psS = Some 0" by code_simp
  have t0: "slicerTotal ?psS = Some (- 3)" by code_simp
  have cn: "slicerCurrent ?ps = None" by code_simp
  have tn: "slicerTotal ?ps = None" by code_simp
  have ok: "layerCountNotNegative ?md" by code_simp
  note a = layers_positive_unless_slicer [of ?psS 0 None ?th ?md "- 3"]
  note b = layers_positive_unless_slicer [of ?ps 0 None ?th ?md 0]
  from a c0 have 1: "current (getLayerInfo ?psS None ?th ?md) = Some 0" by blast
  from a t0 have 2: "total (getLayerInfo ?psS None ?th ?md) = Some (- 3)" by blast
  from b cn ok have 3: "positiveOrNull (current (getLayerInfo ?ps None ?th ?md))" by blast
  from b tn ok have 4: "positiveOrNull (total (getLayerInfo ?ps None ?th ?md))" by blast
  from c0 t0 1 2 cn tn ok 3 4 show ?thesis by blast
qed

subsection \<open>Time values while idle\<close>

text \<open>
  C7 as stated fails: in state \<open>standby\<close>, with a cached metadata record that holds an
  estimated time of 3600 s, the slicer time handed to the display is 3600, not null.
\<close>

theorem idle_slicer_time_counterexample:
  "timeSlicer (pollTimes
      \<lparr>state = ''standby'', filename = '''', info = None,
       print_duration = Num 0, total_duration = Num 0\<rparr>
      None None (Some (emptyObj(''estimated_time'' := Num 3600)))) = Some 3600"
  by code_simp

lemma firstPositive_None_iff:
  "firstPositive vs = None \<longleftrightarrow> list_all notPositive vs"
  by (induction vs)
     (auto simp: asNumber_def toNumber_def split: jsval.splits option.splits)

lemma firstPositive_Some_iff:
  "firstPositive vs = Some n \<longleftrightarrow>
     0 < n \<and> (\<exists>pre post. vs = pre @ Num n # post \<and> list_all notPositive pre)"
proof (induction vs)
  case Nil
  then show ?case by simp
next
  case (Cons v vs)
  show ?case
  proof (cases "notPositive v")
    case True
    then have f: "firstPositive (v # vs) = firstPositive vs"
      by (auto simp: asNumber_def toNumber_def split: jsval.splits)
    show ?thesis
    proof
      assume "firstPositive (v # vs) = Some n"
      with f Cons.IH obtain pre post
        where n: "0 < n" and "vs = pre @ Num n # post" and "list_all notPositive pre"
        by auto
      with True have "v # vs = (v # pre) @ Num n # post \<and> list_all notPositive (v # pre)"
        by simp
      with n show "0 < n \<and> (\<exists>pre post. v # vs = pre @ Num n # post \<and> list_all notPositive pre)"
        by blast
    next
      assume "0 < n \<and> (\<exists>pre post. v # vs = pre @ Num n # post \<and> list_all notPositive pre)"
      then obtain pre post
        where n: "0 < n" and e: "v # vs = pre @ Num n # post" and p: "list_all notPositive pre"
        by blast
      from True n have "v \<noteq> Num n" by auto
      with e obtain pre' where "pre = v # pre'" by (cases pre) auto
      with e p have "vs = pre' @ Num n # post \<and> list_all notPositive pre'" by simp
      with n Cons.IH f show "firstPositive (v # vs) = Some n" by auto
    qed
  next
    case False
    then obtain x where v: "v = Num x" and x: "0 < x" by (cases v) auto
    then have f: "firstPositive (v # vs) = Some x"
      by (simp add: asNumber_def toNumber_def)
    show ?thesis
    proof
      assume "firstPositive (v # vs) = Some n"
      with f have "x = n" by simp
      with v x have "0 < n \<and> v # vs = [] @ Num n # vs \<and> list_all notPositive []" by simp
      then show "0 < n \<and> (\<exists>pre post. v # vs = pre @ Num n # post \<and> list_all notPositive pre)"
        by blast
    next
      assume "0 < n \<and> (\<exists>pre post. v # vs = pre @ Num n # post \<and> list_all notPositive pre)"
      then obtain pre post
        where e: "v # vs = pre @ Num n # post" and p: "list_all notPositive pre" by blast
      from False p e have "pre = []" by (cases pre) auto
      with e v have "x = n" by simp
      with f show "firstPositive (v # vs) = Some n" by simp
    qed
  qed
qed

text \<open>
  C7, amended: when the print state is neither \<open>printing\<close> nor \<open>paused\<close>, the
  progress-based remaining time and the elapsed time are null, and the slicer time is
  the first positive number in this list: the aliases \<open>estimated_time\<close>,
  \<open>slicer_estimated_time\<close>, \<open>slicer_time\<close>, \<open>estimated_print_time\<close>,
  \<open>slicer_estimated_duration\<close>, \<open>print_time\<close> of the cached metadata, then
  \<open>estimated_time\<close>, \<open>slicer_time\<close>, \<open>slicer_estimated_time\<close>,
  \<open>estimated_print_time\<close>, \<open>slicer_estimated_duration\<close> of the slicer info. It is
  null exactly when none of them is a positive number.
\<close>

theorem idle_times:
  assumes "state ps \<noteq> ''printing''" and "state ps \<noteq> ''paused''"
  shows "timeEstimate (pollTimes ps ds vs md) = None
       \<and> timeTotal (pollTimes ps ds vs md) = None
       \<and> (timeSlicer (pollTimes ps ds vs md) = None \<longleftrightarrow>
            list_all notPositive
              [optField md ''estimated_time'', optField md ''slicer_estimated_time'',
               optField md ''slicer_time'', optField md ''estimated_print_time'',
               optField md ''slicer_estimated_duration'', optField md ''print_time'',
               optField (info ps) ''estimated_time'', optField (info ps) ''slicer_time'',
               optField (info ps) ''slicer_estimated_time'',
               optField (info ps) ''estimated_print_time'',
               optField (info ps) ''slicer_estimated_duration''])
       \<and> (\<forall>n. timeSlicer (pollTimes ps ds vs md) = Some n \<longleftrightarrow>
              0 < n \<and>
              (\<exists>pre post.
                 [optField md ''estimated_time'', optField md ''slicer_estimated_time'',
                  optField md ''slicer_time'', optField md ''estimated_print_time'',
                  optField md ''slicer_estimated_duration'', optField md ''print_time'',
                  optField (info ps) ''estimated_time'', optField (info ps) ''slicer_time'',
                  optField (info ps) ''slicer_estimated_time'',
                  optField (info ps) ''estimated_print_time'',
                  optField (info ps) ''slicer_estimated_duration'']
                   = pre @ Num n # post
                 \<and> list_all notPositive pre))"
proof -
  let ?c = "[optField md ''estimated_time'', optField md ''slicer_estimated_time'',
               optField md ''slicer_time'', optField md ''estimated_print_time'',
               optField md ''slicer_estimated_duration'', optField md ''print_time'',
               optField (info ps) ''estimated_time'', optField (info ps) ''slicer_time'',
               optField (info ps) ''slicer_estimated_time'',
               optField (info ps) ''estimated_print_time'',
               optField (info ps) ''slicer_estimated_duration'']"
  from assms have e: "timeEstimate (pollTimes ps ds vs md) = None"
    and t: "timeTotal (pollTimes ps ds vs md) = None"
    and s: "timeSlicer (pollTimes ps ds vs md) = firstPositive ?c"
    by (simp_all add: pollTimes_def Let_def getSlicerTotalSeconds_def)
  from s have 1: "timeSlicer (pollTimes ps ds vs md) = None \<longleftrightarrow> list_all notPositive ?c"
    by (simp only: firstPositive_None_iff)
  from s have 2: "\<forall>n. timeSlicer (pollTimes ps ds vs md) = Some n \<longleftrightarrow>
      0 < n \<and> (\<exists>pre post. ?c = pre @ Num n # post \<and> list_all notPositive pre)"
    by (simp only: firstPositive_Some_iff) simp
  from e t 1 2 show ?thesis by blast
qed


text \<open>
  Three idle polls with duration counters 100 and 120 and a progress of 0.5. Cached
  metadata with \<open>estimated_time\<close> 0 and \<open>slicer_time\<close> 3600, slicer info with
  \<open>estimated_time\<close> 1800: the slicer time is 3600. No metadata, slicer info with
  \<open>slicer_estimated_time\<close> 1800: it is 1800. Metadata with \<open>estimated_time\<close> 0 and no
  slicer info: it is null. The other two values are null in all three.
\<close>

theorem idle_times_witness:
  "state \<lparr>state = ''standby'', filename = ''a.gcode'', info = Some (emptyObj(''estimated_time'' := Num 1800)),
       print_duration = Num 100, total_duration = Num 120\<rparr> \<noteq> ''printing''
   \<and> state \<lparr>state = ''standby'', filename = ''a.gcode'', info = Some (emptyObj(''estimated_time'' := Num 1800)),
       print_duration = Num 100, total_duration = Num 120\<rparr> \<noteq> ''paused''
   \<and> pollTimes
        \<lparr>state = ''standby'', filename = ''a.gcode'',
         info = Some (emptyObj(''estimated_time'' := Num 1800)),
         print_duration = Num 100, total_duration = Num 120\<rparr>
        (Some (emptyObj(''progress'' := Num (1 / 2)))) None
        (Some (emptyObj(''estimated_time'' := Num 0, ''slicer_time'' := Num 3600)))
       = \<lparr>timeEstimate = None, timeSlicer = Some 3600, timeTotal = None\<rparr>
   \<and> pollTimes
        \<lparr>state = ''standby'', filename = ''a.gcode'',
         info = Some (emptyObj(''slicer_estimated_time'' := Num 1800)),
         print_duration = Num 100, total_duration = Num 120\<rparr>
        (Some (emptyObj(''progress'' := Num (1 / 2)))) None None
       = \<lparr>timeEstimate = None, timeSlicer = Some 1800, timeTotal = None\<rparr>
   \<and> pollTimes
        \<lparr>state = ''standby'', filename = ''a.gcode'', info = None,
         print_duration = Num 100, total_duration = Num 120\<rparr>
        (Some (emptyObj(''progress'' := Num (1 / 2)))) None
        (Some (emptyObj(''estimated_time'' := Num 0)))
       = \<lparr>timeEstimate = None, timeSlicer = None, timeTotal = None\<rparr>"
proof -
  let ?ds = "Some (emptyObj(''progress'' := Num (1 / 2)))"
  let ?psA = "\<lparr>state = ''standby'', filename = ''a.gcode'',
         info = Some (emptyObj(''estimated_time'' := Num 1800)),
         print_duration = Num 100, total_duration = Num 120\<rparr>"
  let ?mdA = "Some (emptyObj(''estimated_time'' := Num 0, ''slicer_time'' := Num 3600))"
  let ?psB = "\<lparr>state = ''standby'', filename = ''a.gcode'',
         info = Some (emptyObj(''slicer_estimated_time'' := Num 1800)),
         print_duration = Num 100, total_duration = Num 120\<rparr>"
  let ?psC = "\<lparr>state = ''standby'', filename = ''a.gcode'', info = None,
         print_duration = Num 100, total_duration = Num 120\<rparr>"
  let ?mdC = "Some (emptyObj(''estimated_time'' := Num 0))"
  have a1: "state ?psA \<noteq> ''printing''" and a2: "state ?psA \<noteq> ''paused''" by simp_all
  have b1: "state ?psB \<noteq> ''printing''" and b2: "state ?psB \<noteq> ''paused''" by simp_all
  have c1: "state ?psC \<noteq> ''printing''" and c2: "state ?psC \<noteq> ''paused''" by simp_all
  note A = idle_times [OF a1 a2, of ?ds None ?mdA]
  note B = idle_times [OF b1 b2, of ?ds None None]
  note C = idle_times [OF c1 c2, of ?ds None ?mdC]
  have sA: "timeSlicer (pollTimes ?psA ?ds None ?mdA) = Some 3600"
  proof -
    have "[optField ?mdA ''estimated_time'', optField ?mdA ''slicer_estimated_time'',
           optField ?mdA ''slicer_time'', optField ?mdA ''estimated_print_time'',
           optField ?mdA ''slicer_estimated_duration'', optField ?mdA ''print_time'',
           optField (info ?psA) ''estimated_time'', optField (info ?psA) ''slicer_time'',
           optField (info ?psA) ''slicer_estimated_time'',
           optField (info ?psA) ''estimated_print_time'',
           optField (info ?psA) ''slicer_estimated_duration'']
          = [Num 0, Undefined] @ Num 3600 #
            [Undefined, Undefined, Undefined, Num 1800, Undefined, Undefined, Undefined,
             Undefined]
          \<and> list_all notPositive [Num 0, Undefined]"
      by (simp add: optField_def emptyObj_def)
    then have "(0::rat) < 3600 \<and> (\<exists>pre post.
          [optField ?mdA ''estimated_time'', optField ?mdA ''slicer_estimated_time'',
           optField ?mdA ''slicer_time'', optField ?mdA ''estimated_print_time'',
           optField ?mdA ''slicer_estimated_duration'', optField ?mdA ''print_time'',
           optField (info ?psA) ''estimated_time'', optField (info ?psA) ''slicer_time'',
           optField (info ?psA) ''slicer_estimated_time'',
           optField (info ?psA) ''estimated_print_time'',
           optField (info ?psA) ''slicer_estimated_duration'']
          = pre @ Num 3600 # post \<and> list_all notPositive pre)"
      by (intro conjI) (simp, blast)
    with A [THEN conjunct2, THEN conjunct2, THEN conjunct2, rule_format, of 3600]
    show ?thesis by (rule iffD2)
  qed
  have sB: "timeSlicer (pollTimes ?psB ?ds None None) = Some 1800"
  proof -
    have "[optField None ''estimated_time'', optField None ''slicer_estimated_time'',
           optField None ''slicer_time'', optField None ''estimated_print_time'',
           optField None ''slicer_estimated_duration'', optField None ''print_time'',
           optField (info ?psB) ''estimated_time'', optField (info ?psB) ''slicer_time'',
           optField (info ?psB) ''slicer_estimated_time'',
           optField (info ?psB) ''estimated_print_time'',
           optField (info ?psB) ''slicer_estimated_duration'']
          = [Undefined, Undefined, Undefined, Undefined, Undefined, Undefined, Undefined,
             Undefined] @ Num 1800 # [Undefined, Undefined]
          \<and> list_all notPositive
               [Undefined, Undefined, Undefined, Undefined, Undefined, Undefined, Undefined,
                Undefined]"
      by (simp add: optField_def emptyObj_def)
    then have "(0::rat) < 1800 \<and> (\<exists>pre post.
          [optField None ''estimated_time'', optField None ''slicer_estimated_time'',
           optField None ''slicer_time'', optField None ''estimated_print_time'',
           optField None ''slicer_estimated_duration'', optField None ''print_time'',
           optField (info ?psB) ''estimated_time'', optField (info ?psB) ''slicer_time'',
           optField (info ?psB) ''slicer_estimated_time'',
           optField (info ?psB) ''estimated_print_time'',
           optField (info ?psB) ''slicer_estimated_duration'']
          = pre @ Num 1800 # post \<and> list_all notPositive pre)"
      by (intro conjI) (simp, blast)
    with B [THEN conjunct2, THEN conjunct2, THEN conjunct2, rule_format, of 1800]
    show ?thesis by (rule iffD2)
  qed
  have sC: "timeSlicer (pollTimes ?psC ?ds None ?mdC) = None"
    using C [THEN conjunct2, THEN conjunct2, THEN conjunct1]
    by (simp add: optField_def emptyObj_def)
  from A sA have rA: "pollTimes ?psA ?ds None ?mdA
      = \<lparr>timeEstimate = None, timeSlicer = Some 3600, timeTotal = None\<rparr>"
    by (cases "pollTimes ?psA ?ds None ?mdA") simp
  from B sB have rB: "pollTimes ?psB ?ds None None
      = \<lparr>timeEstimate = None, timeSlicer = Some 1800, timeTotal = None\<rparr>"
    by (cases "pollTimes ?psB ?ds None None") simp
  from C sC have rC: "pollTimes ?psC ?ds None ?mdC
      = \<lparr>timeEstimate = None, timeSlicer = None, timeTotal = None\<rparr>"
    by (cases "pollTimes ?psC ?ds None ?mdC") simp
  from a1 a2 rA rB rC show ?thesis by blast
qed


subsection \<open>Chamber temperature\<close>

text \<open>
  C8 holds where the temperature is read from \<open>temperature\<close> or \<open>temp\<close>. An entry
  that carries its temperature under the alias \<open>current\<close> and no target parses to the
  current temperature 25 and the target 0: the default of the target reads only the
  first two aliases.
\<close>

theorem temp_target_default_current_alias:
  "parseTempEntry (Some (emptyObj(''current'' := Num 25)))
     = Some \<lparr>temp_current = 25, temp_target = 0\<rparr>
   \<and> parseTempEntry (Some (emptyObj(''temperature'' := Num 25)))
     = Some \<lparr>temp_current = 25, temp_target = 25\<rparr>"
  by code_simp

subsection \<open>G-code header\<close>

text \<open>
  The gate at the end of \<open>parseGcodeHeader\<close> reads four of the five fields: the result
  is null exactly when the text is empty or none of \<open>layer_height\<close>,
  \<open>first_layer_height\<close>, \<open>layer_count\<close> and \<open>object_height\<close> is truthy after the scan.
\<close>

lemma derive_keeps_gate:
  "(truthy (deriveLayerCount (deriveObjectHeight meta) ''layer_height'')
    \<or> truthy (deriveLayerCount (deriveObjectHeight meta) ''first_layer_height'')
    \<or> truthy (deriveLayerCount (deriveObjectHeight meta) ''layer_count'')
    \<or> truthy (deriveLayerCount (deriveObjectHeight meta) ''object_height''))
   = (truthy (meta ''layer_height'') \<or> truthy (meta ''first_layer_height'')
      \<or> truthy (meta ''layer_count'') \<or> truthy (meta ''object_height''))"
  by (auto simp: deriveLayerCount_def deriveObjectHeight_def truthy_def Let_def
        split: jsval.splits if_splits)

lemma parseGcodeHeader_null_iff:
  "parseGcodeHeader text = None \<longleftrightarrow>
     text = [] \<or>
     \<not> (truthy (scanHeader text ''layer_height'')
        \<or> truthy (scanHeader text ''first_layer_height'')
        \<or> truthy (scanHeader text ''layer_count'')
        \<or> truthy (scanHeader text ''object_height''))"
  unfolding parseGcodeHeader_def Let_def
  using derive_keeps_gate [of "scanHeader text"] by auto

lemma parseGcodeHeader_keeps_time:
  "parseGcodeHeader text = Some m \<Longrightarrow> m ''estimated_time'' = scanHeader text ''estimated_time''"
  by (auto simp: parseGcodeHeader_def deriveLayerCount_def deriveObjectHeight_def Let_def
        split: if_splits jsval.splits)

text \<open>
  C4, at the input of the claim: a header whose only metadata comment is \<open>;TIME:3600\<close>.
  The scan populates \<open>estimated_time\<close> with 3600 and no other field, and
  \<open>parseGcodeHeader\<close> returns null.
\<close>

theorem gcode_header_time_only_is_null:
  "headerFields (scanHeader '';TIME:3600'') = (Null, Null, Null, Undefined, Num 3600)
   \<and> parseGcodeHeader '';TIME:3600'' = None"
proof -
  have s: "headerFields (scanHeader '';TIME:3600'') = (Null, Null, Null, Undefined, Num 3600)"
    by code_simp
  then have "\<not> (truthy (scanHeader '';TIME:3600'' ''layer_height'')
        \<or> truthy (scanHeader '';TIME:3600'' ''first_layer_height'')
        \<or> truthy (scanHeader '';TIME:3600'' ''layer_count'')
        \<or> truthy (scanHeader '';TIME:3600'' ''object_height''))"
    by (simp add: headerFields_def truthy_def)
  then have "parseGcodeHeader '';TIME:3600'' = None"
    by (simp only: parseGcodeHeader_null_iff) simp
  with s show ?thesis by simp
qed

subsection \<open>Filename heuristics\<close>

text \<open>
  C5, at the input of the claim: the filename \<open>model_0.28mm_2h15m.gcode\<close>, with a
  metadata record from the API that has neither field. The layer height is inferred as
  0.28. The estimated time stays absent: the pattern for the duration matches the
  empty text at the start of the filename, with no group set. A filename that starts
  with the duration gets 8100.
\<close>

theorem filename_heuristics_time_missing:
  "map_option (\<lambda>d. (d ''layer_height'', d ''estimated_time''))
     (cache_data (fst (ensureMetadataLoaded
        \<lparr>apiMetadata = (\<lambda>f. Some emptyObj), gcodeRange = (\<lambda>f. None)\<rparr>
        ''model_0.28mm_2h15m.gcode'' ''printing'' emptyCache)))
     = Some (Num (28 / 100), Undefined)
   \<and> map_option (\<lambda>m. (matched m, groups m 1, groups m 2, groups m 3))
        (rxsearch rxFilenameTime ''model_0.28mm_2h15m.gcode'') = Some ([], None, None, None)
   \<and> inferEstimatedTime ''2h15m_model_0.28mm.gcode'' emptyObj ''estimated_time''
       = Num 8100"
  by code_simp

text \<open>
  The guards of \<open>ensureMetadataLoaded\<close> at the input of C5: the state is
  \<open>printing\<close>, the filename is not empty and the cache does not hold it; the call
  stores a record, and its estimated time is absent.
\<close>

theorem filename_heuristics_time_missing_witness:
  "''model_0.28mm_2h15m.gcode'' \<noteq> []
   \<and> cache_filename emptyCache \<noteq> Some ''model_0.28mm_2h15m.gcode''
   \<and> map_option (\<lambda>d. d ''estimated_time'')
        (cache_data (fst (ensureMetadataLoaded
           \<lparr>apiMetadata = (\<lambda>f. Some emptyObj), gcodeRange = (\<lambda>f. None)\<rparr>
           ''model_0.28mm_2h15m.gcode'' ''printing'' emptyCache)))
       = Some Undefined"
proof -
  have a: "''model_0.28mm_2h15m.gcode'' \<noteq> []" by simp
  have b: "cache_filename emptyCache \<noteq> Some ''model_0.28mm_2h15m.gcode''"
    by (simp add: emptyCache_def)
  from filename_heuristics_time_missing
  have "map_option (\<lambda>d. (d ''layer_height'', d ''estimated_time''))
     (cache_data (fst (ensureMetadataLoaded
        \<lparr>apiMetadata = (\<lambda>f. Some emptyObj), gcodeRange = (\<lambda>f. None)\<rparr>
        ''model_0.28mm_2h15m.gcode'' ''printing'' emptyCache)))
     = Some (Num (28 / 100), Undefined)" by (rule conjunct1)
  then have "map_option (\<lambda>d. d ''estimated_time'')
        (cache_data (fst (ensureMetadataLoaded
           \<lparr>apiMetadata = (\<lambda>f. Some emptyObj), gcodeRange = (\<lambda>f. None)\<rparr>
           ''model_0.28mm_2h15m.gcode'' ''printing'' emptyCache)))
       = Some Undefined"
    by (cases "cache_data (fst (ensureMetadataLoaded
           \<lparr>apiMetadata = (\<lambda>f. Some emptyObj), gcodeRange = (\<lambda>f. None)\<rparr>
           ''model_0.28mm_2h15m.gcode'' ''printing'' emptyCache))") simp_all
  with a b show ?thesis by blast
qed

text \<open>
  The duration pattern on a filename whose first character is not a digit: the match is
  the empty text at the start, and the patch leaves the record as it is.
\<close>

lemma rxFilenameTime_no_digit:
  assumes "c \<notin> set digits"
  shows "rxat rxFilenameTime (c # cs)
           = Some \<lparr>matched = [], groups = (\<lambda>n. None), after = c # cs\<rparr>"
  using assms
  by (simp add: rxat_def rxFilenameTime_def digitsGroup_def Plus_def)

lemma time_needs_leading_digit:
  assumes "c \<notin> set digits"
  shows "inferEstimatedTime (c # cs) data = data"
  using rxFilenameTime_no_digit [OF assms, of cs]
  by (simp add: inferEstimatedTime_def groupSet_def)

subsection \<open>Retry of the status poll\<close>

lemma retry_step:
  assumes "isNetworkError m" and "n < 5"
  shows "onPollError ip m n = (n + 1, RetryIn (min (2000 * 2 ^ n) 30000))"
  using assms by (simp add: onPollError_def maxApiRetries_def Let_def)

lemma terminal_step:
  "onPollError ip m 5 = (5, Terminal (terminalText ip m))"
  by (simp add: onPollError_def maxApiRetries_def)

text \<open>
  C6: from a retry count of 0, six consecutive network failures of the status poll
  schedule retries after 2000, 4000, 8000, 16000 and 30000 ms, each delay being
  \<open>min(2000 * 2^(count - 1), 30000)\<close> for the count after its increment; the sixth
  failure, which is the failure of the fifth retry, schedules nothing and reports the
  terminal text \<open>Unreachable\<close> (the message of a network failure names no HTTP status
  401, 403 or 404).
\<close>

theorem retry_backoff:
  assumes "isNetworkError m1" and "isNetworkError m2" and "isNetworkError m3"
    and "isNetworkError m4" and "isNetworkError m5" and "isNetworkError m6"
    and "\<not> includesStr m6 ''HTTP 401''" and "\<not> includesStr m6 ''HTTP 403''"
    and "\<not> includesStr m6 ''HTTP 404''"
  shows "pollFailures ip [m1, m2, m3, m4, m5, m6] 0 =
           [RetryIn 2000, RetryIn 4000, RetryIn 8000, RetryIn 16000, RetryIn 30000,
            Terminal (''Unreachable: '' @ ip)]
       \<and> (\<forall>n < 5. snd (onPollError ip m1 n) = RetryIn (min (2000 * 2 ^ (n + 1 - 1)) 30000)
                   \<and> fst (onPollError ip m1 n) = n + 1)"
proof
  have 1: "onPollError ip m1 0 = (1, RetryIn 2000)"
    using retry_step [OF assms(1), of 0 ip] by simp
  have 2: "onPollError ip m2 1 = (2, RetryIn 4000)"
    using retry_step [OF assms(2), of 1 ip] by simp
  have 3: "onPollError ip m3 2 = (3, RetryIn 8000)"
    using retry_step [OF assms(3), of 2 ip] by simp
  have 4: "onPollError ip m4 3 = (4, RetryIn 16000)"
    using retry_step [OF assms(4), of 3 ip] by simp
  have 5: "onPollError ip m5 4 = (5, RetryIn 30000)"
    using retry_step [OF assms(5), of 4 ip] by simp
  have 6: "onPollError ip m6 5 = (5, Terminal (''Unreachable: '' @ ip))"
    using assms(7-9) by (simp add: terminal_step terminalText_def)
  show "pollFailures ip [m1, m2, m3, m4, m5, m6] 0 =
           [RetryIn 2000, RetryIn 4000, RetryIn 8000, RetryIn 16000, RetryIn 30000,
            Terminal (''Unreachable: '' @ ip)]"
    unfolding pollFailures.simps 1 2 3 4 5 6 prod.case by (rule refl)
  show "\<forall>n < 5. snd (onPollError ip m1 n) = RetryIn (min (2000 * 2 ^ (n + 1 - 1)) 30000)
                   \<and> fst (onPollError ip m1 n) = n + 1"
    using retry_step [OF assms(1)] by simp
qed

theorem retry_backoff_witness:
  "isNetworkError ''Failed to fetch''
   \<and> \<not> includesStr ''Failed to fetch'' ''HTTP 401''
   \<and> \<not> includesStr ''Failed to fetch'' ''HTTP 403''
   \<and> \<not> includesStr ''Failed to fetch'' ''HTTP 404''
   \<and> pollFailures ''10.0.0.5''
        [''Failed to fetch'', ''Failed to fetch'', ''Failed to fetch'', ''Failed to fetch'',
         ''Failed to fetch'', ''Failed to fetch''] 0 =
        [RetryIn 2000, RetryIn 4000, RetryIn 8000, RetryIn 16000, RetryIn 30000,
         Terminal ''Unreachable: 10.0.0.5'']
   \<and> onPollError ''10.0.0.5'' ''Failed to fetch'' 4 = (5, RetryIn 30000)"
proof -
  have n: "isNetworkError ''Failed to fetch''" by code_simp
  have a: "\<not> includesStr ''Failed to fetch'' ''HTTP 401''" by code_simp
  have b: "\<not> includesStr ''Failed to fetch'' ''HTTP 403''" by code_simp
  have c: "\<not> includesStr ''Failed to fetch'' ''HTTP 404''" by code_simp
  note r = retry_backoff [OF n n n n n n a b c, of "''10.0.0.5''"]
  from r have l: "pollFailures ''10.0.0.5''
        [''Failed to fetch'', ''Failed to fetch'', ''Failed to fetch'', ''Failed to fetch'',
         ''Failed to fetch'', ''Failed to fetch''] 0 =
        [RetryIn 2000, RetryIn 4000, RetryIn 8000, RetryIn 16000, RetryIn 30000,
         Terminal ''Unreachable: 10.0.0.5'']" by simp
  from r have q: "\<forall>n < 5. snd (onPollError ''10.0.0.5'' ''Failed to fetch'' n)
                     = RetryIn (min (2000 * 2 ^ (n + 1 - 1)) 30000)
                   \<and> fst (onPollError ''10.0.0.5'' ''Failed to fetch'' n) = n + 1"
    by (rule conjunct2)
  from q [rule_format, of 4]
  have "snd (onPollError ''10.0.0.5'' ''Failed to fetch'' 4) = RetryIn 30000
        \<and> fst (onPollError ''10.0.0.5'' ''Failed to fetch'' 4) = 5" by simp
  then have s: "onPollError ''10.0.0.5'' ''Failed to fetch'' 4 = (5, RetryIn 30000)"
    by (cases "onPollError ''10.0.0.5'' ''Failed to fetch'' 4") simp
  from n a b c l s show ?thesis by blast
qed

subsection \<open>Thumbnail\<close>

lemma thumbnailLoop_last:
  "thumbnailLoop t lastBlock =
     (if thumbnailBlocks t = [] then lastBlock
      else Some (cleanBlock (last (thumbnailBlocks t))))"
proof (induction t lastBlock rule: thumbnailLoop.induct)
  case (1 t lastBlock)
  show ?case
  proof (cases "rxsearch blockRegex t")
    case None
    then show ?thesis
      by (simp add: thumbnailLoop.simps [of t] thumbnailBlocks.simps [of t])
  next
    case (Some m)
    from "1.IH" [OF Some]
    have "thumbnailLoop (after m) (Some (cleanBlock (group1 m))) =
            (if thumbnailBlocks (after m) = [] then Some (cleanBlock (group1 m))
             else Some (cleanBlock (last (thumbnailBlocks (after m)))))" .
    with Some show ?thesis
      by (simp add: thumbnailLoop.simps [of t] thumbnailBlocks.simps [of t])
  qed
qed

text \<open>
  What the cleaning does to a payload as the slicers write it: a line feed, then lines
  of the form \<open>; DATA\<close>, each ended by a line feed, where \<open>DATA\<close> is not empty and
  holds no white space. The result is the \<open>DATA\<close> parts joined.
\<close>

lemma trim_unchanged:
  assumes "s \<noteq> []" and "hd s \<notin> set whiteSpace" and "last s \<notin> set whiteSpace"
  shows "trim s = s"
proof -
  from assms(1,2) have a: "dropWhile (\<lambda>c. c \<in> set whiteSpace) s = s"
    by (cases s) simp_all
  from assms(1,3) have "dropWhile (\<lambda>c. c \<in> set whiteSpace) (rev s) = rev s"
    by (cases "rev s") (simp_all add: hd_rev [symmetric])
  with a show ?thesis by (simp add: trim_def)
qed

lemma stripMarker_payload:
  assumes "l \<noteq> []" and "set l \<inter> set whiteSpace = {}"
  shows "stripMarker (''; '' @ l) = l"
proof -
  from assms have h: "hd l \<notin> set whiteSpace" and t: "last l \<notin> set whiteSpace"
    by (auto dest: hd_in_set last_in_set)
  have semi: "CHR '';'' \<notin> set whiteSpace" by (simp add: whiteSpace_def)
  have sp: "CHR '' '' \<in> set whiteSpace" by (simp add: whiteSpace_def)
  from assms(1) t semi have 1: "trim (''; '' @ l) = ''; '' @ l"
    by (intro trim_unchanged) simp_all
  from assms(1) h t have 2: "trim l = l" by (rule trim_unchanged)
  from sp h assms(1) have 3: "trim ('' '' @ l) = trim l"
    by (simp add: trim_def)
  from 1 2 3 show ?thesis by (simp add: stripMarker_def)
qed

lemma splitLF_line:
  assumes "CHR 0x0A \<notin> set a"
  shows "splitLF (a @ CHR 0x0A # rest) = a # splitLF rest"
  using assms by (induction a) auto

lemma splitLF_payload:
  assumes "\<forall>l \<in> set ls. CHR 0x0A \<notin> set l"
  shows "splitLF (concat (map (\<lambda>l. ''; '' @ l @ [CHR 0x0A]) ls)) = map (\<lambda>l. ''; '' @ l) ls @ [[]]"
  using assms
proof (induction ls)
  case Nil
  then show ?case by simp
next
  case (Cons l ls)
  then have "CHR 0x0A \<notin> set (''; '' @ l)" by simp
  from splitLF_line [OF this, of "concat (map (\<lambda>l. ''; '' @ l @ [CHR 0x0A]) ls)"] Cons
  show ?case by simp
qed

lemma cleanBlock_payload:
  assumes "\<forall>l \<in> set ls. l \<noteq> [] \<and> set l \<inter> set whiteSpace = {}"
  shows "cleanBlock (CHR 0x0A # concat (map (\<lambda>l. ''; '' @ l @ [CHR 0x0A]) ls)) = concat ls"
proof -
  have lf: "CHR 0x0A \<in> set whiteSpace" by (simp add: whiteSpace_def)
  with assms have nolf: "\<forall>l \<in> set ls. CHR 0x0A \<notin> set l" by auto
  have e: "stripMarker [] = []" by (simp add: stripMarker_def trim_def)
  from assms have m: "map stripMarker (map (\<lambda>l. ''; '' @ l) ls) = ls"
    by (induction ls) (simp_all add: stripMarker_payload del: append.simps)
  from assms have f: "filter (\<lambda>l. l \<noteq> []) ls = ls" by (induction ls) simp_all
  have "splitLF (CHR 0x0A # concat (map (\<lambda>l. ''; '' @ l @ [CHR 0x0A]) ls))
          = [] # map (\<lambda>l. ''; '' @ l) ls @ [[]]"
    using splitLF_payload [OF nolf] by simp
  then show ?thesis using e m f by (simp add: cleanBlock_def)
qed

text \<open>
  C9: when the text of the file holds thumbnail blocks, \<open>extractThumbnailFromGcode\<close>
  returns the payload of the last one, each of its lines trimmed and freed of its
  comment marker, the empty lines dropped and the rest joined.
\<close>

theorem thumbnail_last_block:
  assumes "fname \<noteq> []" and "fetchRange fname = Some text"
    and "thumbnailBlocks text \<noteq> []"
  shows "extractThumbnailFromGcode fetchRange fname
           = Some (cleanBlock (last (thumbnailBlocks text)))"
  using assms by (simp add: extractThumbnailFromGcode_def thumbnailLoop_last)

text \<open>
  A text with two blocks, 32x32 with the payload \<open>QUJD\<close> and 300x300 with the payload
  \<open>REVG\<close>, \<open>SElK\<close> on two lines: the result is \<open>REVGSElK\<close>.
\<close>

theorem thumbnail_last_block_witness:
  "''a.gcode'' \<noteq> []
   \<and> thumbnailBlocks
       (''; thumbnail begin 32x32 8'' @ [CHR 0x0A] @ ''; QUJD'' @ [CHR 0x0A]
        @ ''; thumbnail end'' @ [CHR 0x0A]
        @ ''; thumbnail begin 300x300 16'' @ [CHR 0x0A] @ ''; REVG'' @ [CHR 0x0A]
        @ ''; SElK'' @ [CHR 0x0A] @ ''; thumbnail end'' @ [CHR 0x0A] @ ''G28'' @ [CHR 0x0A])
     = [[CHR 0x0A] @ ''; QUJD'' @ [CHR 0x0A],
        [CHR 0x0A] @ ''; REVG'' @ [CHR 0x0A] @ ''; SElK'' @ [CHR 0x0A]]
   \<and> extractThumbnailFromGcode
       (\<lambda>f. Some
         (''; thumbnail begin 32x32 8'' @ [CHR 0x0A] @ ''; QUJD'' @ [CHR 0x0A]
          @ ''; thumbnail end'' @ [CHR 0x0A]
          @ ''; thumbnail begin 300x300 16'' @ [CHR 0x0A] @ ''; REVG'' @ [CHR 0x0A]
          @ ''; SElK'' @ [CHR 0x0A] @ ''; thumbnail end'' @ [CHR 0x0A] @ ''G28''
          @ [CHR 0x0A]))
       ''a.gcode''
     = Some ''REVGSElK''"
proof -
  let ?text = "''; thumbnail begin 32x32 8'' @ [CHR 0x0A] @ ''; QUJD'' @ [CHR 0x0A]
        @ ''; thumbnail end'' @ [CHR 0x0A]
        @ ''; thumbnail begin 300x300 16'' @ [CHR 0x0A] @ ''; REVG'' @ [CHR 0x0A]
        @ ''; SElK'' @ [CHR 0x0A] @ ''; thumbnail end'' @ [CHR 0x0A] @ ''G28'' @ [CHR 0x0A]"
  let ?blocks = "[[CHR 0x0A] @ ''; QUJD'' @ [CHR 0x0A],
        [CHR 0x0A] @ ''; REVG'' @ [CHR 0x0A] @ ''; SElK'' @ [CHR 0x0A]]"
  have f: "''a.gcode'' \<noteq> []" by simp
  have b: "thumbnailBlocks ?text = ?blocks" by code_simp
  then have ne: "thumbnailBlocks ?text \<noteq> []" by simp
  have c: "cleanBlock (last ?blocks) = ''REVGSElK''" by code_simp
  have "extractThumbnailFromGcode (\<lambda>f. Some ?text) ''a.gcode''
          = Some (cleanBlock (last (thumbnailBlocks ?text)))"
    by (rule thumbnail_last_block [OF f _ ne]) simp
  with b c have "extractThumbnailFromGcode (\<lambda>f. Some ?text) ''a.gcode'' = Some ''REVGSElK''"
    by simp
  with f b show ?thesis by blast
qed

subsection \<open>Metadata cache\<close>

lemma fetchMetadata_sends:
  "fname \<noteq> [] \<Longrightarrow> \<exists>rest. snd (fetchMetadata p fname) = MetadataRequest fname # rest"
  by (auto simp: fetchMetadata_def split: option.splits)

text \<open>
  C10: a failed resolution is not cached as a failure. When the cache holds the
  filename with null data, a call of \<open>ensureMetadataLoaded\<close> with this filename in
  state \<open>printing\<close> runs the resolution as a call on the empty cache does: it sends the
  requests of \<open>fetchMetadata\<close>, the metadata request first, and stores the same result;
  the stored data is null again exactly when the resolution fails again, and then the
  next call does the same. When the data is not null, the call returns at the gate and
  sends nothing.
\<close>

theorem failed_resolution_not_cached:
  assumes "fname \<noteq> []" and "cache_filename cache = Some fname"
  shows "(cache_data cache = None \<longrightarrow>
            ensureMetadataLoaded p fname ''printing'' cache
              = ensureMetadataLoaded p fname ''printing'' emptyCache
          \<and> snd (ensureMetadataLoaded p fname ''printing'' cache)
              = snd (fetchMetadata p fname)
          \<and> (\<exists>rest. snd (ensureMetadataLoaded p fname ''printing'' cache)
                      = MetadataRequest fname # rest)
          \<and> cache_filename (fst (ensureMetadataLoaded p fname ''printing'' cache))
              = Some fname
          \<and> (cache_data (fst (ensureMetadataLoaded p fname ''printing'' cache)) = None)
              = (fst (fetchMetadata p fname) = None))
       \<and> (cache_data cache \<noteq> None \<longrightarrow>
            ensureMetadataLoaded p fname ''printing'' cache = (cache, []))"
proof (intro conjI impI)
  assume d: "cache_data cache = None"
  with assms show "ensureMetadataLoaded p fname ''printing'' cache
      = ensureMetadataLoaded p fname ''printing'' emptyCache"
    by (simp add: ensureMetadataLoaded_def emptyCache_def)
  from d assms show s: "snd (ensureMetadataLoaded p fname ''printing'' cache)
      = snd (fetchMetadata p fname)"
    by (simp add: ensureMetadataLoaded_def split: prod.splits)
  from fetchMetadata_sends [OF assms(1), of p] s
  show "\<exists>rest. snd (ensureMetadataLoaded p fname ''printing'' cache)
                  = MetadataRequest fname # rest" by simp
  from d assms
  show "cache_filename (fst (ensureMetadataLoaded p fname ''printing'' cache)) = Some fname"
    by (simp add: ensureMetadataLoaded_def split: prod.splits)
  from d assms
  show "(cache_data (fst (ensureMetadataLoaded p fname ''printing'' cache)) = None)
          = (fst (fetchMetadata p fname) = None)"
    by (simp add: ensureMetadataLoaded_def split: prod.splits)
next
  assume "cache_data cache \<noteq> None"
  with assms show "ensureMetadataLoaded p fname ''printing'' cache = (cache, [])"
    by (simp add: ensureMetadataLoaded_def)
qed

text \<open>
  A printer that answers neither request, and a cache that holds \<open>a.gcode\<close> with null
  data: the call sends both requests again and leaves the cache as it was.
\<close>

theorem failed_resolution_not_cached_witness:
  "''a.gcode'' \<noteq> []
   \<and> cache_filename
       \<lparr>cache_filename = Some ''a.gcode'', cache_data = None, cache_source = None\<rparr>
     = Some ''a.gcode''
   \<and> cache_data
       \<lparr>cache_filename = Some ''a.gcode'', cache_data = None, cache_source = None\<rparr> = None
   \<and> snd (ensureMetadataLoaded \<lparr>apiMetadata = (\<lambda>f. None), gcodeRange = (\<lambda>f. None)\<rparr>
        ''a.gcode'' ''printing''
        \<lparr>cache_filename = Some ''a.gcode'', cache_data = None, cache_source = None\<rparr>)
     = [MetadataRequest ''a.gcode'', GcodeRangeRequest ''a.gcode'']
   \<and> fst (ensureMetadataLoaded \<lparr>apiMetadata = (\<lambda>f. None), gcodeRange = (\<lambda>f. None)\<rparr>
        ''a.gcode'' ''printing''
        \<lparr>cache_filename = Some ''a.gcode'', cache_data = None, cache_source = None\<rparr>)
     = \<lparr>cache_filename = Some ''a.gcode'', cache_data = None, cache_source = None\<rparr>"
proof -
  let ?p = "\<lparr>apiMetadata = (\<lambda>f. None), gcodeRange = (\<lambda>f. None)\<rparr>"
  let ?c = "\<lparr>cache_filename = Some ''a.gcode'', cache_data = None, cache_source = None\<rparr>"
  have f: "''a.gcode'' \<noteq> []" by simp
  have n: "cache_filename ?c = Some ''a.gcode''" by simp
  have d: "cache_data ?c = None" by simp
  have e: "ensureMetadataLoaded ?p ''a.gcode'' ''printing'' emptyCache
             = (?c, [MetadataRequest ''a.gcode'', GcodeRangeRequest ''a.gcode''])"
    by (simp add: ensureMetadataLoaded_def fetchMetadata_def emptyCache_def)
  from failed_resolution_not_cached [OF f n, of ?p] d
  have "ensureMetadataLoaded ?p ''a.gcode'' ''printing'' ?c
          = ensureMetadataLoaded ?p ''a.gcode'' ''printing'' emptyCache" by blast
  with e have "ensureMetadataLoaded ?p ''a.gcode'' ''printing'' ?c
          = (?c, [MetadataRequest ''a.gcode'', GcodeRangeRequest ''a.gcode''])" by simp
  then have "snd (ensureMetadataLoaded ?p ''a.gcode'' ''printing'' ?c)
               = [MetadataRequest ''a.gcode'', GcodeRangeRequest ''a.gcode'']"
    and "fst (ensureMetadataLoaded ?p ''a.gcode'' ''printing'' ?c) = ?c" by simp_all
  with f n d show ?thesis by blast
qed

end
